theory Spec2Isabelle
  imports Main "HOL-Library.Char_ord" "HOL-Library.List_Lexorder" "HOL-Library.Multiset"
begin

section \<open>Python values, errors and templates\<close>

text \<open>
  The values a template holds. Floating-point numbers and numpy arrays are kept opaque
  (type parameters \<open>'f\<close> and \<open>'a\<close>): nothing below computes with them, they are only
  parsed, stored and passed on.
\<close>

datatype ('f, 'a) pyval =
    PyNone
  | PyBool bool
  | PyInt int
  | PyFloat 'f
  | PyStr string
  | PyList "('f, 'a) pyval list"
  | PyDict "(string \<times> ('f, 'a) pyval) list"
  | PyArray 'a

text \<open>The exceptions the modelled code can raise; \<open>Exception\<close> carries its message.\<close>

datatype py_error =
    IndexError
  | ValueError
  | TypeError
  | AttributeError
  | OSError
  | ParseError
  | Exception string

text \<open>
  A template is a Python \<open>dict\<close> from path strings to values. \<open>template[k] = v\<close> is
  \<open>t(k \<mapsto> v)\<close>, \<open>template.update(d)\<close> is \<open>t ++ d\<close>, and an unfilled entry holds
  \<open>PyNone\<close>.
\<close>

type_synonym ('f, 'a) template = "string \<rightharpoonup> ('f, 'a) pyval"

text \<open>Sequencing of a computation that may raise: the first error is the result.\<close>

definition and_then :: "py_error + 'x \<Rightarrow> ('x \<Rightarrow> py_error + 'y) \<Rightarrow> py_error + 'y" where
  "and_then r k = (case r of Inl e \<Rightarrow> Inl e | Inr v \<Rightarrow> k v)"

text \<open>
  Python list indexing \<open>xs[i]\<close>: a negative index counts from the end, an index out of
  range raises \<open>IndexError\<close>.
\<close>

definition py_index :: "'x list \<Rightarrow> int \<Rightarrow> py_error + 'x" where
  "py_index xs i =
     (if 0 \<le> i \<and> i < int (length xs) then Inr (xs ! nat i)
      else if i < 0 \<and> - int (length xs) \<le> i then Inr (xs ! nat (int (length xs) + i))
      else Inl IndexError)"

section \<open>convert.py: the schema tree walker\<close>

text \<open>
  An \<open>xml.etree.ElementTree\<close> element: its tag, its attribute dictionary and its
  children in document order.
\<close>

datatype element = Element (tag: string) (attrib: "string \<rightharpoonup> string") (children: "element list")

text \<open>
  The module \<open>helpers\<close> of the data converter is not among the source files. The four
  functions of it that \<open>generate_template_from_nxdl\<close> calls are parameters of the model.
\<close>

record helpers =
  get_first_group :: "element \<Rightarrow> element"
  remove_namespace_from_tag :: "string \<Rightarrow> string"
  convert_nexus_to_caps :: "string \<Rightarrow> string"
  convert_nexus_to_suggested_name :: "string \<Rightarrow> string"

text \<open>
  The body of \<open>generate_template_from_nxdl\<close> below its \<open>if path is None\<close> block, with
  the path a string. The dictionary the source mutates is passed in and returned.
\<close>

fun generate_template_at ::
  "helpers \<Rightarrow> element \<Rightarrow> ('f, 'a) template \<Rightarrow> string \<Rightarrow> ('f, 'a) template" where
  "generate_template_at h (Element rtag rattrib rchildren) template path =
     (let tag = remove_namespace_from_tag h rtag in
      if tag = ''doc'' then template
      else
        let suffix =
              (case rattrib ''name'' of
                 Some name \<Rightarrow> name
               | None \<Rightarrow>
                   (case rattrib ''type'' of
                      Some ty \<Rightarrow>
                        convert_nexus_to_caps h ty
                          @ ''['' @ convert_nexus_to_suggested_name h ty @ '']''
                    | None \<Rightarrow> ''''));
            suffix = (if tag = ''attribute'' then ''@'' @ suffix else suffix);
            path = path @ ''/'' @ suffix;
            template =
              (if tag = ''field'' \<or> tag = ''attribute'' then template(path \<mapsto> PyNone)
               else template);
            template =
              (if tag = ''field''
                  \<and> (rattrib ''units'' \<noteq> None \<and> rattrib ''units'' \<noteq> Some ''NX_UNITLESS'')
               then template(path @ ''/@units'' \<mapsto> PyNone)
               else template)
        in fold (\<lambda>child t. generate_template_at h child t path) rchildren template)"

text \<open>
  \<open>generate_template_from_nxdl(root, template, path=None)\<close>: the first call (no path)
  starts at the first group with the empty path.
\<close>

definition generate_template_from_nxdl ::
  "helpers \<Rightarrow> element \<Rightarrow> ('f, 'a) template \<Rightarrow> string option \<Rightarrow> ('f, 'a) template" where
  "generate_template_from_nxdl h root template path =
     (case path of
        None \<Rightarrow> generate_template_at h (get_first_group h root) template ''''
      | Some p \<Rightarrow> generate_template_at h root template p)"

section \<open>reader.py: strings and lists of the Python library\<close>

text \<open>A comprehension \<open>[f(x) for x in xs]\<close> whose \<open>f\<close> may raise: left to right, the first error wins.\<close>

fun traverse :: "('x \<Rightarrow> py_error + 'y) \<Rightarrow> 'x list \<Rightarrow> py_error + 'y list" where
  "traverse f [] = Inr []"
| "traverse f (x # xs) =
     and_then (f x) (\<lambda>y. and_then (traverse f xs) (\<lambda>ys. Inr (y # ys)))"

text \<open>
  A character of a string is a code point below 256. Of these, \<open>str.isspace\<close> holds
  for tab to carriage return, the four separators 0x1C to 0x1F, the space, the next-line
  control 0x85 and the no-break space 0xA0; \<open>str.strip\<close> and \<open>str.split\<close> take
  exactly these for whitespace.
\<close>

definition is_space :: "char \<Rightarrow> bool" where
  "is_space c =
     (let n = (of_char c :: nat)
      in (9 \<le> n \<and> n \<le> 13) \<or> (28 \<le> n \<and> n \<le> 32) \<or> n = 133 \<or> n = 160)"

text \<open>\<open>s.strip()\<close>.\<close>

definition py_strip :: "string \<Rightarrow> string" where
  "py_strip s = rev (dropWhile is_space (rev (dropWhile is_space s)))"

text \<open>\<open>s.split()\<close>: the maximal runs of non-whitespace characters.\<close>

fun split_from :: "string \<Rightarrow> string \<Rightarrow> string list" where
  "split_from cur [] = (if cur = [] then [] else [cur])"
| "split_from cur (c # cs) =
     (if is_space c then (if cur = [] then split_from [] cs else cur # split_from [] cs)
      else split_from (cur @ [c]) cs)"

definition py_split :: "string \<Rightarrow> string list" where
  "py_split s = split_from [] s"

text \<open>\<open>s.split('/')[-1]\<close>: what follows the last slash, all of \<open>s\<close> when it has none.\<close>

definition after_last_slash :: "string \<Rightarrow> string" where
  "after_last_slash s = rev (takeWhile (\<lambda>c. c \<noteq> CHR ''/'') (rev s))"

text \<open>The decimal form of an integer, as an f-string prints it.\<close>

fun str_of_nat :: "nat \<Rightarrow> string" where
  "str_of_nat n =
     (if n < 10 then [''0123456789'' ! n]
      else str_of_nat (n div 10) @ [''0123456789'' ! (n mod 10)])"

declare str_of_nat.simps [simp del]

definition str_of_int :: "int \<Rightarrow> string" where
  "str_of_int i = (if i < 0 then CHR ''-'' # str_of_nat (nat (- i)) else str_of_nat (nat i))"

text \<open>
  \<open>os.path.splitext(p)[1]\<close> on a POSIX system: the extension starts at the last dot of
  the last path component, unless only dots precede that dot in the component.
\<close>

definition splitext_ext :: "string \<Rightarrow> string" where
  "splitext_ext p =
     (let base = rev (takeWhile (\<lambda>c. c \<noteq> CHR ''/'') (rev p)) in
      if CHR ''.'' \<notin> set base then []
      else
        let after_dot = rev (takeWhile (\<lambda>c. c \<noteq> CHR ''.'') (rev base));
            before_dot = take (length base - length after_dot - 1) base
        in if list_all (\<lambda>c. c = CHR ''.'') before_dot then []
           else CHR ''.'' # after_dot)"

section \<open>reader.py: the environment\<close>

text \<open>A pandas \<open>DataFrame\<close>, as far as the reader looks at it: \<open>data.index.values\<close> and \<open>data.values\<close>.\<close>

record 'a dataframe =
  index_values :: 'a
  df_values :: 'a

text \<open>
  The module \<open>metadata_parsers\<close> (imported as \<open>mpars\<close>) is not among the source files:
  its functions, each taking the list of preamble lines, and its two constants are
  parameters.
\<close>

record ('f, 'a) metadata_parsers =
  read_start_date :: "string list \<Rightarrow> py_error + ('f, 'a) pyval"
  read_sample_attenuator :: "string list \<Rightarrow> py_error + ('f, 'a) pyval"
  read_ref_attenuator :: "string list \<Rightarrow> py_error + ('f, 'a) pyval"
  read_uv_monochromator_range :: "string list \<Rightarrow> py_error + ('f, 'a) pyval"
  read_visir_monochromator_range :: "string list \<Rightarrow> py_error + ('f, 'a) pyval"
  get_d2_range :: "string list \<Rightarrow> py_error + ('f, 'a) pyval"
  get_halogen_range :: "string list \<Rightarrow> py_error + ('f, 'a) pyval"
  MIN_WAVELENGTH :: 'f
  MAX_WAVELENGTH :: 'f

text \<open>
  What the reader asks of the file system and of the libraries it calls:
  \<^item> \<open>float_of_string\<close>: the builtin \<open>float\<close> on a string, \<open>None\<close> where it raises \<open>ValueError\<close>;
  \<^item> \<open>path_exists\<close>: \<open>os.path.exists\<close>;
  \<^item> \<open>open_text\<close>: opening a file with the given encoding and reading its lines;
  \<^item> \<open>read_csv\<close>: \<open>pd.read_csv(fobj, delim_whitespace=True, header=None, index_col=0)\<close> on
    the lines not yet consumed;
  \<^item> \<open>first_column\<close>: the numpy slice \<open>values[:, 0]\<close>;
  \<^item> \<open>json_load\<close>, \<open>yaml_safe_load\<close>: \<open>json.load\<close> and \<open>yaml.safe_load\<close> (\<open>parse_json\<close> is
    declared to return a dictionary, so \<open>json_load\<close> yields one);
  \<^item> \<open>flatten_and_replace\<close>: the function of \<open>readers.utils\<close>, not among the source files;
  \<^item> \<open>mpars\<close>: the metadata parsers.
\<close>

record ('f, 'a, 'y) environment =
  float_of_string :: "string \<Rightarrow> 'f option"
  path_exists :: "string \<Rightarrow> bool"
  open_text :: "string \<Rightarrow> string option \<Rightarrow> py_error + string list"
  read_csv :: "string list \<Rightarrow> py_error + 'a dataframe"
  first_column :: "'a \<Rightarrow> py_error + 'a"
  json_load :: "string list \<Rightarrow> py_error + ('f, 'a) template"
  yaml_safe_load :: "string list \<Rightarrow> py_error + 'y"
  flatten_and_replace ::
    "'y \<Rightarrow> (string \<rightharpoonup> string) \<Rightarrow> (string \<rightharpoonup> string) \<Rightarrow> py_error + ('f, 'a) template"
  mpars :: "('f, 'a) metadata_parsers"

text \<open>\<open>float(s)\<close>.\<close>

definition py_float :: "('f, 'a, 'y) environment \<Rightarrow> string \<Rightarrow> py_error + 'f" where
  "py_float env s = (case float_of_string env s of None \<Rightarrow> Inl ValueError | Some f \<Rightarrow> Inr f)"

section \<open>reader.py: the transmission reader\<close>

text \<open>
  An entry of \<open>METADATA_MAP\<close>, by the test of \<open>parse_asc\<close> that accepts it:
  \<open>isinstance(val, int)\<close>, \<open>isinstance(val, str)\<close>, \<open>isfunction(val)\<close>, or none of them. A
  value of another type carries the two texts the warning prints, \<open>type(val)\<close> and \<open>val\<close>.
\<close>

datatype ('f, 'a) rule =
    RuleInt int
  | RuleStr string
  | RuleFunction "string list \<Rightarrow> py_error + ('f, 'a) pyval"
  | RuleOther string string

text \<open>The dictionary \<open>METADATA_MAP\<close>, in the order of its entries.\<close>

definition METADATA_MAP :: "('f, 'a) metadata_parsers \<Rightarrow> (string \<times> ('f, 'a) rule) list" where
  "METADATA_MAP mp =
     [(''/ENTRY[entry]/SAMPLE[sample]/name'', RuleInt 8),
      (''/ENTRY[entry]/start_time'', RuleFunction (read_start_date mp)),
      (''/ENTRY[entry]/instrument/sample_attenuator/attenuator_transmission'',
         RuleFunction (read_sample_attenuator mp)),
      (''/ENTRY[entry]/instrument/ref_attenuator/attenuator_transmission'',
         RuleFunction (read_ref_attenuator mp)),
      (''/ENTRY[entry]/instrument/spectrometer/GRATING[grating]/wavelength_range'',
         RuleFunction (read_uv_monochromator_range mp)),
      (''/ENTRY[entry]/instrument/spectrometer/GRATING[grating1]/wavelength_range'',
         RuleFunction (read_visir_monochromator_range mp)),
      (''/ENTRY[entry]/instrument/SOURCE[source]/type'', RuleStr ''D2''),
      (''/ENTRY[entry]/instrument/SOURCE[source]/wavelength_range'',
         RuleFunction (get_d2_range mp)),
      (''/ENTRY[entry]/instrument/SOURCE[source1]/type'', RuleStr ''halogen''),
      (''/ENTRY[entry]/instrument/SOURCE[source1]/wavelength_range'',
         RuleFunction (get_halogen_range mp))]"

definition CONVERT_DICT :: "string \<rightharpoonup> string" where
  "CONVERT_DICT = Map.empty"

definition REPLACE_NESTED :: "string \<rightharpoonup> string" where
  "REPLACE_NESTED = Map.empty"

text \<open>\<open>data_to_template\<close>. The slice \<open>data.values[:, 0]\<close> is the one step that can raise.\<close>

definition data_to_template ::
  "('f, 'a, 'y) environment \<Rightarrow> 'a dataframe \<Rightarrow> py_error + ('f, 'a) template" where
  "data_to_template env data =
     (let template = (Map.empty :: ('f, 'a) template);
          template = template(''/ENTRY[entry]/data/@signal'' \<mapsto> PyStr ''data'');
          template = template(''/ENTRY[entry]/data/@axes'' \<mapsto> PyStr ''wavelength'');
          template = template(''/ENTRY[entry]/data/type'' \<mapsto> PyStr ''transmission'');
          template = template(''/ENTRY[entry]/data/@signal'' \<mapsto> PyStr ''transmission'');
          template = template(''/ENTRY[entry]/data/wavelength'' \<mapsto> PyArray (index_values data));
          template = template(''/ENTRY[entry]/instrument/spectrometer/wavelength''
                       \<mapsto> PyArray (index_values data));
          template = template(''/ENTRY[entry]/data/wavelength/@units'' \<mapsto> PyStr ''nm'')
      in and_then (first_column env (df_values data)) (\<lambda>column.
           let template = template(''/ENTRY[entry]/data/transmission'' \<mapsto> PyArray column);
               template = template(''/ENTRY[entry]/instrument/measured_data''
                            \<mapsto> PyArray (df_values data))
           in Inr template))"

text \<open>
  \<open>parse_detector_line\<close>. The default \<open>convert=None\<close> stands for the identity; the callers
  here pass the conversion, \<open>Inr\<close> for the identity.
\<close>

definition parse_detector_line ::
  "string \<Rightarrow> (string \<Rightarrow> py_error + 'x) \<Rightarrow> py_error + 'x list" where
  "parse_detector_line line convert =
     traverse (\<lambda>s. convert (after_last_slash s)) (py_split line)"

text \<open>\<open>convert_detector_to_template\<close>; \<open>gain\<close> is \<open>None\<close> or a number.\<close>

definition convert_detector_to_template ::
  "('f, 'a, 'y) environment \<Rightarrow> string \<Rightarrow> string \<Rightarrow> 'f \<Rightarrow> 'f option \<Rightarrow> int \<Rightarrow> 'f list
     \<Rightarrow> py_error + ('f, 'a) template" where
  "convert_detector_to_template env det_type slit time gain det_idx wavelength_range =
     (let path =
            (if det_idx = 0 then ''/ENTRY[entry]/instrument/DETECTOR[detector]''
             else ''/ENTRY[entry]/instrument/DETECTOR[detector'' @ str_of_int det_idx @ '']'');
          template = (Map.empty :: ('f, 'a) template);
          template = template(path @ ''/type'' \<mapsto> PyStr det_type);
          template = template(path @ ''/response_time'' \<mapsto> PyFloat time);
          template =
            (case gain of
               Some g \<Rightarrow> template(path @ ''/gain'' \<mapsto> PyFloat g)
             | None \<Rightarrow> template)
      in and_then
           (if slit = ''servo'' then Inr (template(path @ ''/slit/type'' \<mapsto> PyStr ''servo''))
            else
              let template = template(path @ ''/slit/type'' \<mapsto> PyStr ''fixed'')
              in and_then (py_float env slit) (\<lambda>gap.
                   Inr (template(path @ ''/slit/x_gap'' \<mapsto> PyFloat gap,
                                 path @ ''/slit/x_gap/@units'' \<mapsto> PyStr ''nm''))))
           (\<lambda>template.
              Inr (template(path @ ''/wavelength_range'' \<mapsto> PyList (map PyFloat wavelength_range)))))"

text \<open>The loop of \<open>read_detectors\<close> over \<open>zip(["PbS", "InGaAs"], [1, 0])\<close>.\<close>

fun detector_loop ::
  "('f, 'a, 'y) environment \<Rightarrow> string list \<Rightarrow> 'f list \<Rightarrow> 'f list \<Rightarrow> 'f list
     \<Rightarrow> (string \<times> int) list \<Rightarrow> ('f, 'a) template \<Rightarrow> py_error + ('f, 'a) template" where
  "detector_loop env detector_slits detector_times detector_gains wavelength_ranges [] template =
     Inr template"
| "detector_loop env detector_slits detector_times detector_gains wavelength_ranges
     ((name, idx) # rest) template =
     and_then (py_index detector_slits idx) (\<lambda>slit.
     and_then (py_index detector_times idx) (\<lambda>time.
     and_then (py_index detector_gains idx) (\<lambda>gain.
     and_then (py_index wavelength_ranges (2 - idx)) (\<lambda>lo.
     and_then (py_index wavelength_ranges (3 - idx)) (\<lambda>hi.
     and_then (convert_detector_to_template env name slit time (Some gain) idx [lo, hi]) (\<lambda>d.
       detector_loop env detector_slits detector_times detector_gains wavelength_ranges rest
         (template ++ d)))))))"

text \<open>\<open>read_detectors\<close>.\<close>

definition read_detectors ::
  "('f, 'a, 'y) environment \<Rightarrow> string list \<Rightarrow> py_error + ('f, 'a) template" where
  "read_detectors env metadata =
     and_then (py_index metadata 31) (\<lambda>line31.
     and_then (parse_detector_line line31 Inr) (\<lambda>detector_slits.
     and_then (py_index metadata 32) (\<lambda>line32.
     and_then (parse_detector_line line32 (py_float env)) (\<lambda>detector_times.
     and_then (py_index metadata 35) (\<lambda>line35.
     and_then (parse_detector_line line35 (py_float env)) (\<lambda>detector_gains.
     and_then (py_index metadata 43) (\<lambda>line43.
     and_then (traverse (py_float env) (py_split line43)) (\<lambda>detector_changes.
       let wavelength_ranges =
             [MIN_WAVELENGTH (mpars env)] @ rev detector_changes @ [MAX_WAVELENGTH (mpars env)]
       in
     and_then (py_index detector_slits 2) (\<lambda>slit.
     and_then (py_index detector_times 2) (\<lambda>time.
     and_then (py_index wavelength_ranges 0) (\<lambda>lo.
     and_then (py_index wavelength_ranges 1) (\<lambda>hi.
     and_then (convert_detector_to_template env ''PMT'' slit time None 2 [lo, hi]) (\<lambda>d.
       detector_loop env detector_slits detector_times detector_gains wavelength_ranges
         [(''PbS'', 1), (''InGaAs'', 0)] (Map.empty ++ d))))))))))))))"

text \<open>
  The first loop of \<open>parse_asc\<close>: the stripped lines before the line that strips to
  \<open>#DATA\<close>, and the lines left in the file after it.
\<close>

fun read_preamble :: "string list \<Rightarrow> string list \<Rightarrow> string list \<times> string list" where
  "read_preamble [] metadata = (metadata, [])"
| "read_preamble (line # rest) metadata =
     (if py_strip line = ''#DATA'' then (metadata, rest)
      else read_preamble rest (metadata @ [py_strip line]))"

text \<open>
  One turn of the loop of \<open>parse_asc\<close> over the metadata map. The state is the template
  and the lines printed so far.
\<close>

fun apply_rule ::
  "string list \<Rightarrow> ('f, 'a) template \<times> string list \<Rightarrow> string \<times> ('f, 'a) rule
     \<Rightarrow> py_error + ('f, 'a) template \<times> string list" where
  "apply_rule metadata (template, out) (path, RuleInt val) =
     and_then (py_index metadata val) (\<lambda>line. Inr (template(path \<mapsto> PyStr line), out))"
| "apply_rule metadata (template, out) (path, RuleStr val) =
     Inr (template(path \<mapsto> PyStr val), out)"
| "apply_rule metadata (template, out) (path, RuleFunction val) =
     and_then (val metadata) (\<lambda>v. Inr (template(path \<mapsto> v), out))"
| "apply_rule metadata (template, out) (path, RuleOther ty val) =
     Inr (template,
          out @ [''WARNING: Invalid type value '' @ ty @ '' of entry '' @ [CHR 0x27] @ path
                   @ '':'' @ val @ [CHR 0x27] @ '' in METADATA_MAP''])"

fun apply_rules ::
  "string list \<Rightarrow> (string \<times> ('f, 'a) rule) list \<Rightarrow> ('f, 'a) template \<times> string list
     \<Rightarrow> py_error + ('f, 'a) template \<times> string list" where
  "apply_rules metadata [] state = Inr state"
| "apply_rules metadata (entry # rest) state =
     and_then (apply_rule metadata state entry) (apply_rules metadata rest)"

text \<open>
  \<open>parse_asc\<close> for a given metadata map. Like the two parsers after it, it returns the
  dictionary together with the lines it printed.
\<close>

definition parse_asc_with ::
  "('f, 'a, 'y) environment \<Rightarrow> (string \<times> ('f, 'a) rule) list \<Rightarrow> string
     \<Rightarrow> py_error + ('f, 'a) template \<times> string list" where
  "parse_asc_with env metadata_map file_path =
     and_then (open_text env file_path (Some ''utf-8'')) (\<lambda>lines.
       case read_preamble lines [] of (metadata, rest) \<Rightarrow>
     and_then (read_csv env rest) (\<lambda>data.
     and_then (apply_rules metadata metadata_map (Map.empty, [])) (\<lambda>(template, out).
     and_then (read_detectors env metadata) (\<lambda>detectors.
     and_then (data_to_template env data) (\<lambda>data_template.
       Inr (template ++ detectors ++ data_template, out))))))"

definition parse_asc ::
  "('f, 'a, 'y) environment \<Rightarrow> string \<Rightarrow> py_error + ('f, 'a) template \<times> string list" where
  "parse_asc env file_path = parse_asc_with env (METADATA_MAP (mpars env)) file_path"

definition parse_json ::
  "('f, 'a, 'y) environment \<Rightarrow> string \<Rightarrow> py_error + ('f, 'a) template \<times> string list" where
  "parse_json env file_path =
     and_then (open_text env file_path None) (\<lambda>lines.
     and_then (json_load env lines) (\<lambda>d. Inr (d, [])))"

definition parse_yml ::
  "('f, 'a, 'y) environment \<Rightarrow> string \<Rightarrow> py_error + ('f, 'a) template \<times> string list" where
  "parse_yml env file_path =
     and_then (open_text env file_path None) (\<lambda>lines.
     and_then (yaml_safe_load env lines) (\<lambda>doc.
     and_then (flatten_and_replace env doc CONVERT_DICT REPLACE_NESTED) (\<lambda>d. Inr (d, []))))"

text \<open>The dictionary \<open>extensions\<close> of \<open>TransmissionReader.read\<close>.\<close>

definition extensions ::
  "('f, 'a, 'y) environment
     \<Rightarrow> (string \<times> (string \<Rightarrow> py_error + ('f, 'a) template \<times> string list)) list" where
  "extensions env =
     [(''.asc'', parse_asc env),
      (''.json'', parse_json env),
      (''.yml'', parse_yml env),
      (''.yaml'', parse_yml env)]"

text \<open>The loop of \<open>read\<close> over the sorted paths.\<close>

fun read_files ::
  "('f, 'a, 'y) environment \<Rightarrow> string list \<Rightarrow> ('f, 'a) template \<times> string list
     \<Rightarrow> py_error + ('f, 'a) template \<times> string list" where
  "read_files env [] state = Inr state"
| "read_files env (file_path # rest) (template, out) =
     (let extension = splitext_ext file_path in
      if extension \<notin> set (map fst (extensions env)) then
        read_files env rest
          (template,
           out @ [''WARNING: File '' @ file_path @ '' has an unsupported extension, ignoring file.''])
      else if \<not> path_exists env file_path then
        read_files env rest
          (template, out @ [''WARNING: File '' @ file_path @ '' does not exist, ignoring entry.''])
      else
        and_then
          ((case map_of (extensions env) extension of
              Some parse \<Rightarrow> parse
            | None \<Rightarrow> (\<lambda>_. Inr (Map.empty, []))) file_path)
          (\<lambda>(d, printed). read_files env rest (template ++ d, out @ printed)))"

text \<open>
  \<open>TransmissionReader.read\<close>. Both arguments default to \<open>None\<close>, on which the first
  subscript assignment, or \<open>sorted\<close>, raises \<open>TypeError\<close>. The result is the template and
  the lines printed.
\<close>

definition TransmissionReader_read ::
  "('f, 'a, 'y) environment \<Rightarrow> ('f, 'a) template option \<Rightarrow> string list option
     \<Rightarrow> py_error + ('f, 'a) template \<times> string list" where
  "TransmissionReader_read env template file_paths =
     (case template of
        None \<Rightarrow> Inl TypeError
      | Some template \<Rightarrow>
          let template = template(''/@default'' \<mapsto> PyStr ''entry'');
              template = template(''/ENTRY[entry]/@default'' \<mapsto> PyStr ''data'');
              template = template(''/ENTRY[entry]/definition'' \<mapsto> PyStr ''NXtransmission'');
              template = template(''/ENTRY[entry]/definition/@version'' \<mapsto> PyStr ''v2022.06'');
              template = template(''/ENTRY[entry]/definition/@url'' \<mapsto>
                PyStr (''https://fairmat-experimental.github.io/nexus-fairmat-proposal/''
                       @ ''50433d9039b3f33299bab338998acb5335cd8951/index.html''))
          in (case file_paths of
                None \<Rightarrow> Inl TypeError
              | Some file_paths \<Rightarrow>
                  read_files env (sort_key splitext_ext file_paths) (template, [])))"

text \<open>A reader class: its \<open>supported_nxdls\<close> and its \<open>read\<close>.\<close>

record ('f, 'a) reader =
  supported_nxdls :: "string list"
  read :: "('f, 'a) template option \<Rightarrow> string list option
             \<Rightarrow> py_error + ('f, 'a) template \<times> string list"

definition TransmissionReader :: "('f, 'a, 'y) environment \<Rightarrow> ('f, 'a) reader" where
  "TransmissionReader env =
     \<lparr>supported_nxdls = [''NXtransmission''], read = TransmissionReader_read env\<rparr>"

section \<open>convert.py: the conversion routine\<close>

text \<open>
  \<open>re.search("NX[a-z_]*(?=.nxdl.xml)", nxdl)\<close>. The lookahead \<open>(?=.nxdl.xml)\<close> holds where
  nine characters follow of which the first and the sixth are any character but a
  newline and the others spell \<open>nxdl\<close> and \<open>xml\<close>.
\<close>

definition lookahead :: "string \<Rightarrow> bool" where
  "lookahead s =
     (9 \<le> length s \<and> s ! 0 \<noteq> CHR 0x0A \<and> take 4 (drop 1 s) = ''nxdl''
      \<and> s ! 5 \<noteq> CHR 0x0A \<and> take 3 (drop 6 s) = ''xml'')"

text \<open>
  The greedy \<open>[a-z_]*\<close> with backtracking: the longest prefix of the run, \<open>k\<close> characters
  at most, after which the lookahead holds.
\<close>

fun backtrack :: "string \<Rightarrow> nat \<Rightarrow> string option" where
  "backtrack rest 0 = (if lookahead rest then Some [] else None)"
| "backtrack rest (Suc k) =
     (if lookahead (drop (Suc k) rest) then Some (take (Suc k) rest) else backtrack rest k)"

definition match_here :: "string \<Rightarrow> string option" where
  "match_here s =
     (case s of
        c1 # c2 # rest \<Rightarrow>
          if c1 = CHR ''N'' \<and> c2 = CHR ''X'' then
            map_option (\<lambda>m. ''NX'' @ m)
              (backtrack rest
                 (length (takeWhile (\<lambda>c. (CHR ''a'' \<le> c \<and> c \<le> CHR ''z'') \<or> c = CHR ''_'') rest)))
          else None
      | _ \<Rightarrow> None)"

text \<open>The leftmost match, \<open>None\<close> when there is none.\<close>

fun re_search_nxdl_name :: "string \<Rightarrow> string option" where
  "re_search_nxdl_name [] = None"
| "re_search_nxdl_name (c # cs) =
     (case match_here (c # cs) of
        Some m \<Rightarrow> Some m
      | None \<Rightarrow> re_search_nxdl_name cs)"

text \<open>
  What \<open>convert\<close> asks of its surroundings:
  \<^item> \<open>helper_functions\<close>: the module \<open>helpers\<close>;
  \<^item> \<open>ET_parse\<close>: \<open>ET.parse(nxdl).getroot()\<close>;
  \<^item> \<open>module_dir\<close>: \<open>os.path.dirname(__file__)\<close>;
  \<^item> \<open>load_reader\<close>: loading the module at a path with \<open>importlib\<close> and taking its \<open>READER\<close>;
  \<^item> \<open>validate_data_dict\<close>: the function of \<open>helpers\<close>;
  \<^item> \<open>writer_write\<close>: \<open>Writer(data, nxdl_path, output_path).write()\<close>, of a module that
    is not among the source files.
\<close>

record ('f, 'a) converter_environment =
  helper_functions :: helpers
  ET_parse :: "string \<Rightarrow> py_error + element"
  module_dir :: string
  load_reader :: "string \<Rightarrow> py_error + ('f, 'a) reader"
  validate_data_dict ::
    "('f, 'a) template \<Rightarrow> ('f, 'a) template \<Rightarrow> element \<Rightarrow> py_error + unit"
  writer_write :: "('f, 'a) template \<Rightarrow> string \<Rightarrow> string \<Rightarrow> py_error + unit"

text \<open>\<open>os.path.join\<close> on a POSIX system.\<close>

definition os_path_join2 :: "string \<Rightarrow> string \<Rightarrow> string" where
  "os_path_join2 a b =
     (if b \<noteq> [] \<and> hd b = CHR ''/'' then b
      else if a = [] \<or> last a = CHR ''/'' then a @ b
      else a @ ''/'' @ b)"

definition os_path_join :: "string \<Rightarrow> string list \<Rightarrow> string" where
  "os_path_join a ps = foldl os_path_join2 a ps"

definition get_reader ::
  "('f, 'a) converter_environment \<Rightarrow> string \<Rightarrow> py_error + ('f, 'a) reader" where
  "get_reader env reader_name =
     (let path_prefix = (if module_dir env \<noteq> [] then module_dir env @ ''/'' else []);
          path = os_path_join path_prefix [''readers'', reader_name, ''reader.py'']
      in load_reader env path)"

text \<open>
  What a run of \<open>convert\<close> does to the outside, in order: the messages it logs, the call
  of the reader (with the lines the reader printed, when it returned), the validation
  and the writing of the output file.
\<close>

datatype ('f, 'a) event =
    LogTemplate "('f, 'a) template"
  | LogInputFiles string "string list"
  | ReaderRead "('f, 'a) template" "string list"
  | ReaderPrinted "string list"
  | Validate
  | WriteOutput string
  | LogOutput string

text \<open>
  \<open>convert\<close>: the events of the run and how it ended, \<open>Inl\<close> with the exception raised or
  \<open>Inr ()\<close> on return.
\<close>

definition convert ::
  "('f, 'a) converter_environment \<Rightarrow> string list \<Rightarrow> string \<Rightarrow> string \<Rightarrow> string \<Rightarrow> bool
     \<Rightarrow> ('f, 'a) event list \<times> (py_error + unit)" where
  "convert env input_file reader_name nxdl output generate_template =
     (case ET_parse env nxdl of
        Inl e \<Rightarrow> ([], Inl e)
      | Inr nxdl_root \<Rightarrow>
          let template =
                generate_template_from_nxdl (helper_functions env) nxdl_root Map.empty None
          in
          if generate_template then
            ([LogTemplate (\<lambda>key. map_option (\<lambda>_. PyStr ''None'') (template key))], Inr ())
          else
            let events = [LogInputFiles reader_name input_file] in
            (case get_reader env reader_name of
               Inl e \<Rightarrow> (events, Inl e)
             | Inr data_reader \<Rightarrow>
                 (case re_search_nxdl_name nxdl of
                    None \<Rightarrow> (events, Inl AttributeError)
                  | Some nxdl_name \<Rightarrow>
                      if nxdl_name \<notin> set (supported_nxdls data_reader) then
                        (events,
                         Inl (Exception (''The chosen NXDL isn'' @ [CHR 0x27]
                                @ ''t supported by the selected reader.'')))
                      else
                        let events = events @ [ReaderRead template input_file] in
                        (case read data_reader (Some template) (Some input_file) of
                           Inl e \<Rightarrow> (events, Inl e)
                         | Inr (data, printed) \<Rightarrow>
                             let events = events @ [ReaderPrinted printed, Validate] in
                             (case validate_data_dict env template data nxdl_root of
                                Inl e \<Rightarrow> (events, Inl e)
                              | Inr _ \<Rightarrow>
                                  let events = events @ [WriteOutput output] in
                                  (case writer_write env data nxdl output of
                                     Inl e \<Rightarrow> (events, Inl e)
                                   | Inr _ \<Rightarrow> (events @ [LogOutput output], Inr ())))))))"

section \<open>The schema walker, as the specification describes it\<close>

text \<open>
  The naming rule: the segment of a node is its \<open>name\<close> attribute when it has one,
  otherwise the caps form of its \<open>type\<close> attribute followed by the suggested name in
  brackets, otherwise empty; a node tagged \<open>attribute\<close> has \<open>@\<close> before its segment.
\<close>

fun segment :: "helpers \<Rightarrow> element \<Rightarrow> string" where
  "segment h (Element rtag rattrib rchildren) =
     (if remove_namespace_from_tag h rtag = ''attribute'' then ''@'' else [])
     @ (case rattrib ''name'' of
          Some name \<Rightarrow> name
        | None \<Rightarrow>
            (case rattrib ''type'' of
               Some ty \<Rightarrow>
                 convert_nexus_to_caps h ty @ ''['' @ convert_nexus_to_suggested_name h ty @ '']''
             | None \<Rightarrow> []))"

text \<open>
  The chains of a tree: every node that is neither a \<open>doc\<close> node nor below one, as the
  list of nodes from the root down to it.
\<close>

fun chains :: "helpers \<Rightarrow> element \<Rightarrow> element list list" where
  "chains h (Element rtag rattrib rchildren) =
     (if remove_namespace_from_tag h rtag = ''doc'' then []
      else [Element rtag rattrib rchildren]
             # map ((#) (Element rtag rattrib rchildren)) (concat (map (chains h) rchildren)))"

text \<open>The path of a chain below the prefix \<open>p\<close>: a slash and the segment, for each node.\<close>

definition chain_path :: "helpers \<Rightarrow> string \<Rightarrow> element list \<Rightarrow> string" where
  "chain_path h p c = p @ concat (map (\<lambda>n. ''/'' @ segment h n) c)"

definition is_entry_node :: "helpers \<Rightarrow> element \<Rightarrow> bool" where
  "is_entry_node h n =
     (remove_namespace_from_tag h (tag n) = ''field''
      \<or> remove_namespace_from_tag h (tag n) = ''attribute'')"

definition has_units :: "helpers \<Rightarrow> element \<Rightarrow> bool" where
  "has_units h n =
     (remove_namespace_from_tag h (tag n) = ''field''
      \<and> attrib n ''units'' \<noteq> None \<and> attrib n ''units'' \<noteq> Some ''NX_UNITLESS'')"

text \<open>The paths of the nodes tagged \<open>field\<close> or \<open>attribute\<close>, in document order.\<close>

definition node_paths :: "helpers \<Rightarrow> string \<Rightarrow> element \<Rightarrow> string list" where
  "node_paths h p root =
     map (chain_path h p) (filter (\<lambda>c. is_entry_node h (last c)) (chains h root))"

text \<open>The \<open>@units\<close> paths of the fields that declare units other than \<open>NX_UNITLESS\<close>.\<close>

definition units_paths :: "helpers \<Rightarrow> string \<Rightarrow> element \<Rightarrow> string list" where
  "units_paths h p root =
     map (\<lambda>c. chain_path h p c @ ''/@units'')
       (filter (\<lambda>c. has_units h (last c)) (chains h root))"

definition keys_of :: "helpers \<Rightarrow> string \<Rightarrow> element \<Rightarrow> string set" where
  "keys_of h p n = set (node_paths h p n) \<union> set (units_paths h p n)"

text \<open>A template with the keys of \<open>S\<close> set to \<open>None\<close>.\<close>

definition unfilled :: "string set \<Rightarrow> ('f, 'a) template \<Rightarrow> ('f, 'a) template" where
  "unfilled S t = (\<lambda>k. if k \<in> S then Some PyNone else t k)"

subsection \<open>An instance of the helpers, and a small schema\<close>

definition to_upper :: "char \<Rightarrow> char" where
  "to_upper c =
     (case map_of (zip ''abcdefghijklmnopqrstuvwxyz'' ''ABCDEFGHIJKLMNOPQRSTUVWXYZ'') c of
        Some u \<Rightarrow> u
      | None \<Rightarrow> c)"

text \<open>
  Modelled from the spec: the four functions of the missing module \<open>helpers\<close>. The walk
  starts at the first child tagged \<open>group\<close> (at the root itself when there is none), a
  tag loses its namespace in braces, and a class name such as \<open>NXentry\<close> has the caps
  form \<open>ENTRY\<close> and the suggested name \<open>entry\<close>.
\<close>

definition example_helpers :: helpers where
  "example_helpers =
     \<lparr>get_first_group =
        (\<lambda>root. case filter (\<lambda>c. tag c = ''group'') (children root) of
                   [] \<Rightarrow> root
                 | g # _ \<Rightarrow> g),
      remove_namespace_from_tag = (\<lambda>t. rev (takeWhile (\<lambda>c. c \<noteq> CHR ''}'') (rev t))),
      convert_nexus_to_caps = (\<lambda>ty. map to_upper (drop 2 ty)),
      convert_nexus_to_suggested_name = (\<lambda>ty. drop 2 ty)\<rparr>"

text \<open>
  A definition with one group \<open>NXentry\<close> holding a documented field \<open>x\<close> in nanometres
  with an attribute \<open>long_name\<close>, a unitless field \<open>y\<close>, and a field \<open>z\<close> without units.
\<close>

definition example_field_x :: element where
  "example_field_x =
     Element ''field'' [''name'' \<mapsto> ''x'', ''units'' \<mapsto> ''nm'']
       [Element ''doc'' Map.empty [Element ''field'' [''name'' \<mapsto> ''hidden''] []],
        Element ''attribute'' [''name'' \<mapsto> ''long_name''] []]"

definition example_schema :: element where
  "example_schema =
     Element ''definition'' [''name'' \<mapsto> ''NXexample'']
       [Element ''doc'' Map.empty [],
        Element ''group'' [''type'' \<mapsto> ''NXentry'']
          [example_field_x,
           Element ''field'' [''name'' \<mapsto> ''y'', ''units'' \<mapsto> ''NX_UNITLESS''] [],
           Element ''field'' [''name'' \<mapsto> ''z''] []]]"

section \<open>The reader, as the specification describes it\<close>

text \<open>
  What a rule of the metadata map yields over the preamble lines: the line at the index
  (a negative index counts from the end) as a string, the literal, or what the function
  returns; a rule of another type yields nothing.
\<close>

fun rule_value :: "string list \<Rightarrow> ('f, 'a) rule \<Rightarrow> ('f, 'a) pyval option" where
  "rule_value metadata (RuleInt i) =
     Some (PyStr (metadata ! nat (if i < 0 then int (length metadata) + i else i)))"
| "rule_value metadata (RuleStr s) = Some (PyStr s)"
| "rule_value metadata (RuleFunction f) = (case f metadata of Inr v \<Rightarrow> Some v | Inl e \<Rightarrow> None)"
| "rule_value metadata (RuleOther ty val) = None"

text \<open>
  A rule can be evaluated: an index is within the preamble, a function returns.
\<close>

fun rule_applies :: "string list \<Rightarrow> ('f, 'a) rule \<Rightarrow> bool" where
  "rule_applies metadata (RuleInt i) =
     (- int (length metadata) \<le> i \<and> i < int (length metadata))"
| "rule_applies metadata (RuleStr s) = True"
| "rule_applies metadata (RuleFunction f) = (case f metadata of Inr v \<Rightarrow> True | Inl e \<Rightarrow> False)"
| "rule_applies metadata (RuleOther ty val) = True"

text \<open>The warning for an entry whose rule has another type; no line for the other entries.\<close>

fun rule_warning :: "string \<times> ('f, 'a) rule \<Rightarrow> string list" where
  "rule_warning (path, RuleOther ty val) =
     [''WARNING: Invalid type value '' @ ty @ '' of entry '' @ [CHR 0x27] @ path
        @ '':'' @ val @ [CHR 0x27] @ '' in METADATA_MAP'']"
| "rule_warning (path, r) = []"

text \<open>A file the reader parses: its extension is a recognized one and the file exists.\<close>

definition usable :: "('f, 'a, 'y) environment \<Rightarrow> string \<Rightarrow> bool" where
  "usable env file_path =
     (splitext_ext file_path \<in> {''.asc'', ''.json'', ''.yml'', ''.yaml''}
      \<and> path_exists env file_path)"

text \<open>The warning printed for a file that is not parsed.\<close>

definition skip_warning :: "('f, 'a, 'y) environment \<Rightarrow> string \<Rightarrow> string" where
  "skip_warning env file_path =
     (if splitext_ext file_path \<in> {''.asc'', ''.json'', ''.yml'', ''.yaml''}
      then ''WARNING: File '' @ file_path @ '' does not exist, ignoring entry.''
      else ''WARNING: File '' @ file_path @ '' has an unsupported extension, ignoring file.'')"

text \<open>The five entries \<open>read\<close> sets before it looks at its files.\<close>

definition fixed_entries :: "('f, 'a) template" where
  "fixed_entries =
     [''/@default'' \<mapsto> PyStr ''entry'',
      ''/ENTRY[entry]/@default'' \<mapsto> PyStr ''data'',
      ''/ENTRY[entry]/definition'' \<mapsto> PyStr ''NXtransmission'',
      ''/ENTRY[entry]/definition/@version'' \<mapsto> PyStr ''v2022.06'',
      ''/ENTRY[entry]/definition/@url'' \<mapsto>
        PyStr ''https://fairmat-experimental.github.io/nexus-fairmat-proposal/50433d9039b3f33299bab338998acb5335cd8951/index.html'']"

text \<open>The tokens of a detector line: the words of the line, each cut after its last slash.\<close>

definition detector_tokens :: "string \<Rightarrow> string list" where
  "detector_tokens line = map after_last_slash (py_split line)"

text \<open>The four paths of a detector that the end-to-end scenario names.\<close>

definition detector_keys :: "string \<Rightarrow> string list" where
  "detector_keys path =
     [path @ ''/type'', path @ ''/response_time'', path @ ''/slit/type'',
      path @ ''/wavelength_range'']"

subsection \<open>An example environment\<close>

text \<open>
  A measurement file: a preamble of 44 lines, the sentinel, two rows of data. Line 8
  names the sample; lines 31, 32 and 35 hold the slits, response times and gains of the
  detectors, line 43 the wavelengths at which the detector changes.
\<close>

definition example_asc :: "string list" where
  "example_asc =
     [''PE UV       SUBTECH     SPECTRUM    ASCII       PEDS        4.00'', ''-1'',
      ''sample.asc'', ''22/06/01'', ''10:15:00.00'', ''22/06/01'', ''10:20:00.00'', ''analyst'',
      ''  sample A  '', '''', '''', ''Lambda 1050'', ''serial'', ''1.0'', ''0'', ''0'', ''nm'', ''1'', ''0'', ''0'',
      ''0'', ''2.00'', ''0'', ''0'', ''0'', ''0'', ''0'', ''0'', ''0'', ''0'', ''0'',
      ''3350/servo 860.8/servo 2.00'', ''0.2 0.2 0.2'', ''0'', ''0'', ''5.00 1.00'', ''0'', ''0'',
      ''DoubleDePol,CommonBeamDepol'', ''0'', ''100%'', ''100%'', ''319.2'', ''1800.5 860.8'',
      ''#DATA'', ''300.0 0.51'', ''301.0 0.52'']"

text \<open>The input files of the example, by path.\<close>

definition example_files :: "(string \<times> string list) list" where
  "example_files =
     [(''data.asc'', example_asc),
      (''a.json'', [''a'']),
      (''b.json'', [''b'']),
      (''meta.yml'', [''operator: m''])]"

definition example_mpars :: "(string, string list list) metadata_parsers" where
  "example_mpars =
     \<lparr>read_start_date = (\<lambda>md. Inr (PyStr ''2022-06-01T10:15:00'')),
      read_sample_attenuator = (\<lambda>md. Inr (PyInt 100)),
      read_ref_attenuator = (\<lambda>md. Inr (PyInt 100)),
      read_uv_monochromator_range = (\<lambda>md. Inr (PyList [PyFloat ''190'', PyFloat ''319.2''])),
      read_visir_monochromator_range = (\<lambda>md. Inr (PyList [PyFloat ''319.2'', PyFloat ''3350''])),
      get_d2_range = (\<lambda>md. Inr (PyList [PyFloat ''190'', PyFloat ''319.2''])),
      get_halogen_range = (\<lambda>md. Inr (PyList [PyFloat ''319.2'', PyFloat ''3350''])),
      MIN_WAVELENGTH = ''190'',
      MAX_WAVELENGTH = ''3350''\<rparr>"

text \<open>
  The environment of the example. A float is kept as its decimal text and an array as
  the rows of its texts; the two JSON files both hold the key \<open>/ENTRY[entry]/operator\<close>,
  with the values \<open>a\<close> and \<open>b\<close>.
\<close>

definition example_env :: "(string, string list list, string list) environment" where
  "example_env =
     \<lparr>float_of_string =
        (\<lambda>s. if s \<noteq> [] \<and> list_all (\<lambda>c. c \<in> set ''0123456789.'') s then Some s else None),
      path_exists = (\<lambda>p. map_of example_files p \<noteq> None),
      open_text =
        (\<lambda>p encoding. case map_of example_files p of None \<Rightarrow> Inl OSError | Some ls \<Rightarrow> Inr ls),
      read_csv =
        (\<lambda>ls. if ls = [] then Inl ParseError
              else Inr \<lparr>index_values = map (\<lambda>l. take 1 (py_split l)) ls,
                        df_values = map (\<lambda>l. drop 1 (py_split l)) ls\<rparr>),
      first_column =
        (\<lambda>rows. if list_all (\<lambda>r. r \<noteq> []) rows then Inr (map (take 1) rows) else Inl IndexError),
      json_load =
        (\<lambda>ls. if ls = [''a''] then Inr [''/ENTRY[entry]/operator'' \<mapsto> PyStr ''a'']
              else if ls = [''b''] then Inr [''/ENTRY[entry]/operator'' \<mapsto> PyStr ''b'']
              else Inl ValueError),
      yaml_safe_load = (\<lambda>ls. Inr ls),
      flatten_and_replace =
        (\<lambda>doc convert_dict replace_nested.
           if doc = [''operator: m''] then Inr [''/ENTRY[entry]/operator'' \<mapsto> PyStr ''m'']
           else Inl ValueError),
      mpars = example_mpars\<rparr>"

text \<open>
  The surroundings of \<open>convert\<close> in the example: one schema file, and the transmission
  reader where \<open>get_reader\<close> looks for it.
\<close>

definition example_converter_environment ::
  "(string, string list list) converter_environment" where
  "example_converter_environment =
     \<lparr>helper_functions = example_helpers,
      ET_parse = (\<lambda>p. if p = ''NXexample.nxdl.xml'' then Inr example_schema else Inl OSError),
      module_dir = [],
      load_reader =
        (\<lambda>p. if p = ''readers/transmission/reader.py'' then Inr (TransmissionReader example_env)
             else Inl OSError),
      validate_data_dict = (\<lambda>template data root. Inr ()),
      writer_write = (\<lambda>data nxdl output. Inr ())\<rparr>"

text \<open>The value a run of the reader left at a key: the error when it raised.\<close>

definition value_at ::
  "py_error + ('f, 'a) template \<times> string list \<Rightarrow> string \<Rightarrow> py_error + ('f, 'a) pyval option" where
  "value_at result key = (case result of Inl e \<Rightarrow> Inl e | Inr (template, out) \<Rightarrow> Inr (template key))"

text \<open>The group of a detector: without a number for the index 0, with the index otherwise.\<close>

definition detector_path :: "int \<Rightarrow> string" where
  "detector_path det_idx =
     (if det_idx = 0 then ''/ENTRY[entry]/instrument/DETECTOR[detector]''
      else ''/ENTRY[entry]/instrument/DETECTOR[detector'' @ str_of_int det_idx @ '']'')"

text \<open>Every path a detector can get: the four above, the gain and the gap of a fixed slit.\<close>

definition detector_all_keys :: "string \<Rightarrow> string list" where
  "detector_all_keys path =
     detector_keys path @ [path @ ''/gain'', path @ ''/slit/x_gap'', path @ ''/slit/x_gap/@units'']"

text \<open>At least \<open>n\<close> tokens, each of which \<open>float\<close> accepts.\<close>

definition numbers :: "('f, 'a, 'y) environment \<Rightarrow> nat \<Rightarrow> string list \<Rightarrow> bool" where
  "numbers env n tokens =
     (n \<le> length tokens \<and> list_all (\<lambda>s. float_of_string env s \<noteq> None) tokens)"

text \<open>
  A preamble in the expected format: at least 44 lines; on line 31 three slits or more,
  the first three each \<open>servo\<close> or a number; on line 32 three response times or more; on
  line 35 two gains or more; on line 43 two wavelengths or more; and every rule of the
  metadata map can be evaluated.
\<close>

definition well_formed_preamble :: "('f, 'a, 'y) environment \<Rightarrow> string list \<Rightarrow> bool" where
  "well_formed_preamble env metadata =
     (44 \<le> length metadata
      \<and> 3 \<le> length (detector_tokens (metadata ! 31))
      \<and> list_all (\<lambda>s. s = ''servo'' \<or> float_of_string env s \<noteq> None)
           (take 3 (detector_tokens (metadata ! 31)))
      \<and> numbers env 3 (detector_tokens (metadata ! 32))
      \<and> numbers env 2 (detector_tokens (metadata ! 35))
      \<and> numbers env 2 (py_split (metadata ! 43))
      \<and> list_all (\<lambda>entry. rule_applies metadata (snd entry)) (METADATA_MAP (mpars env)))"

text \<open>
  The wavelengths that bound the ranges of the detectors: the least wavelength, the
  wavelengths of the detector changes in reverse, the greatest wavelength.
\<close>

definition wavelength_bounds :: "('f, 'a, 'y) environment \<Rightarrow> 'f list \<Rightarrow> 'f list" where
  "wavelength_bounds env changes =
     [MIN_WAVELENGTH (mpars env)] @ rev changes @ [MAX_WAVELENGTH (mpars env)]"

text \<open>
  What the four paths of a detector hold: its type, its response time, \<open>servo\<close> or
  \<open>fixed\<close> for its slit, and the two bounds of its wavelength range.
\<close>

definition detector_entries ::
  "string \<Rightarrow> string \<Rightarrow> string \<Rightarrow> 'f \<Rightarrow> 'f \<Rightarrow> 'f \<Rightarrow> (string \<times> ('f, 'a) pyval) list" where
  "detector_entries path det_type slit time lo hi =
     [(path @ ''/type'', PyStr det_type),
      (path @ ''/response_time'', PyFloat time),
      (path @ ''/slit/type'', PyStr (if slit = ''servo'' then ''servo'' else ''fixed'')),
      (path @ ''/wavelength_range'', PyList [PyFloat lo, PyFloat hi])]"

text \<open>A template holds each of the given entries, the key with the value.\<close>

definition has_entries :: "('f, 'a) template \<Rightarrow> (string \<times> ('f, 'a) pyval) list \<Rightarrow> bool" where
  "has_entries template entries = list_all (\<lambda>(key, v). template key = Some v) entries"

section \<open>Proofs: sequencing\<close>

lemma and_then_Inl [simp]: "and_then (Inl e) k = Inl e"
  by (simp add: and_then_def)

lemma and_then_Inr [simp]: "and_then (Inr v) k = k v"
  by (simp add: and_then_def)

section \<open>Proofs: the schema walker\<close>

lemma unfilled_empty: "unfilled {} t = t"
  by (simp add: unfilled_def)

lemma unfilled_unfilled: "unfilled A (unfilled B t) = unfilled (A \<union> B) t"
  by (auto simp: unfilled_def fun_eq_iff)

lemma chains_nonempty: "c \<in> set (chains h n) \<Longrightarrow> c \<noteq> []"
  by (cases n) (auto split: if_splits)

lemma chain_path_Cons: "chain_path h p (n # c) = chain_path h (p @ ''/'' @ segment h n) c"
  by (simp add: chain_path_def)

lemma chain_path_single: "chain_path h p [n] = p @ ''/'' @ segment h n"
  by (simp add: chain_path_def)

lemma keys_of_doc:
  "remove_namespace_from_tag h tg = ''doc'' \<Longrightarrow> keys_of h p (Element tg at kids) = {}"
  by (simp add: keys_of_def node_paths_def units_paths_def)

lemma chains_node:
  assumes "remove_namespace_from_tag h tg \<noteq> ''doc''"
  shows "set (chains h (Element tg at kids)) =
    insert [Element tg at kids]
      (\<Union>k \<in> set kids. (#) (Element tg at kids) ` set (chains h k))"
  using assms by auto

lemma image_paths_node:
  assumes nd: "remove_namespace_from_tag h tg \<noteq> ''doc''"
  shows "(\<lambda>c. f (chain_path h p c)) ` {c \<in> set (chains h (Element tg at kids)). P (last c)} =
           (if P (Element tg at kids) then {f (p @ ''/'' @ segment h (Element tg at kids))} else {})
         \<union> (\<Union>k \<in> set kids.
              (\<lambda>c. f (chain_path h (p @ ''/'' @ segment h (Element tg at kids)) c))
                ` {c \<in> set (chains h k). P (last c)})"
    (is "?L = ?A \<union> ?B")
proof -
  let ?n = "Element tg at kids"
  let ?p' = "p @ ''/'' @ segment h ?n"
  have split: "{c \<in> set (chains h ?n). P (last c)} =
      (if P ?n then {[?n]} else {})
      \<union> (\<Union>k \<in> set kids. (#) ?n ` {c \<in> set (chains h k). P (last c)})"
  proof (rule set_eqI)
    fix c
    show "c \<in> {c \<in> set (chains h ?n). P (last c)} \<longleftrightarrow>
          c \<in> (if P ?n then {[?n]} else {})
             \<union> (\<Union>k \<in> set kids. (#) ?n ` {c \<in> set (chains h k). P (last c)})"
      unfolding chains_node[OF nd]
      using chains_nonempty[of _ h]
      by (cases "P ?n") (auto simp del: chains.simps simp: last_ConsR image_iff)
  qed
  have "?L = (\<lambda>c. f (chain_path h p c)) ` (if P ?n then {[?n]} else {})
        \<union> (\<Union>k \<in> set kids. (\<lambda>c. f (chain_path h p c)) ` (#) ?n ` {c \<in> set (chains h k). P (last c)})"
    unfolding split by (simp only: image_Un image_UN)
  also have "(\<lambda>c. f (chain_path h p c)) ` (if P ?n then {[?n]} else {}) = ?A"
    by (simp add: chain_path_single del: segment.simps)
  also have "(\<Union>k \<in> set kids. (\<lambda>c. f (chain_path h p c)) ` (#) ?n ` {c \<in> set (chains h k). P (last c)}) = ?B"
    by (simp only: image_image chain_path_Cons)
  finally show ?thesis .
qed

lemma keys_of_node:
  assumes "remove_namespace_from_tag h tg \<noteq> ''doc''"
  shows "keys_of h p (Element tg at kids) =
           (if is_entry_node h (Element tg at kids) then {p @ ''/'' @ segment h (Element tg at kids)} else {})
         \<union> (if has_units h (Element tg at kids) then {p @ ''/'' @ segment h (Element tg at kids) @ ''/@units''} else {})
         \<union> (\<Union>k \<in> set kids. keys_of h (p @ ''/'' @ segment h (Element tg at kids)) k)"
proof -
  have np: "\<And>p n. set (node_paths h p n) =
      (\<lambda>c. id (chain_path h p c)) ` {c \<in> set (chains h n). is_entry_node h (last c)}"
    by (simp add: node_paths_def)
  have up: "\<And>p n. set (units_paths h p n) =
      (\<lambda>c. (\<lambda>s. s @ ''/@units'') (chain_path h p c)) ` {c \<in> set (chains h n). has_units h (last c)}"
    by (simp add: units_paths_def)
  show ?thesis
    unfolding keys_of_def np up
      image_paths_node[OF assms, where f=id and P="is_entry_node h"]
      image_paths_node[OF assms, where f="\<lambda>s. s @ ''/@units''" and P="has_units h"]
    by (simp only: id_apply UN_Un_distrib append_assoc Un_ac)
qed

lemma fold_unfilled:
  assumes "\<And>k t. k \<in> set kids \<Longrightarrow> f k t = unfilled (K k) t"
  shows "fold f kids t = unfilled (\<Union>k \<in> set kids. K k) t"
  using assms
proof (induction kids arbitrary: t)
  case Nil
  show ?case by (simp add: unfilled_empty)
next
  case (Cons k ks)
  have "fold f (k # ks) t = fold f ks (f k t)" by simp
  also have "\<dots> = unfilled (\<Union>k \<in> set ks. K k) (f k t)" using Cons by simp
  also have "f k t = unfilled (K k) t" using Cons.prems by simp
  finally show ?case by (simp add: unfilled_unfilled Un_commute)
qed

text \<open>The function's body, with the node's own writes told apart from its children's.\<close>

lemma generate_template_at_unfold:
  "generate_template_at h n t p =
     (if remove_namespace_from_tag h (tag n) = ''doc'' then t
      else
        let path = p @ ''/'' @ segment h n;
            t1 = (if is_entry_node h n then t(path \<mapsto> PyNone) else t);
            t2 = (if has_units h n then t1(path @ ''/@units'' \<mapsto> PyNone) else t1)
        in fold (\<lambda>child t. generate_template_at h child t path) (children n) t2)"
  by (cases n) (auto simp: Let_def is_entry_node_def has_units_def split: option.splits)

lemma generate_template_at_unfilled:
  "generate_template_at h n (t :: ('f, 'a) template) p = unfilled (keys_of h p n) t"
proof (induction n arbitrary: t p)
  case (Element rtag rattrib rchildren)
  let ?n = "Element rtag rattrib rchildren"
  show ?case
  proof (cases "remove_namespace_from_tag h rtag = ''doc''")
    case True
    then show ?thesis
      by (subst generate_template_at_unfold) (simp add: keys_of_doc unfilled_empty)
  next
    case False
    let ?path = "p @ ''/'' @ segment h ?n"
    have fold_eq: "\<And>t :: ('f, 'a) template.
        fold (\<lambda>child t. generate_template_at h child t ?path) rchildren t
        = unfilled (\<Union>k \<in> set rchildren. keys_of h ?path k) t"
      by (rule fold_unfilled[where K="keys_of h ?path"]) (rule Element.IH)
    have own: "(let t1 = (if is_entry_node h ?n then t(?path \<mapsto> PyNone) else t)
         in (if has_units h ?n then t1(?path @ ''/@units'' \<mapsto> PyNone) else t1))
       = unfilled ((if is_entry_node h ?n then {?path} else {})
            \<union> (if has_units h ?n then {?path @ ''/@units''} else {})) t"
      by (auto simp: Let_def unfilled_def fun_eq_iff simp del: segment.simps)
    have "generate_template_at h ?n t p =
       fold (\<lambda>child t. generate_template_at h child t ?path) rchildren
         (let t1 = (if is_entry_node h ?n then t(?path \<mapsto> PyNone) else t)
         in (if has_units h ?n then t1(?path @ ''/@units'' \<mapsto> PyNone) else t1))"
      using False by (subst generate_template_at_unfold) (simp add: Let_def del: segment.simps)
    then show ?thesis
      unfolding own fold_eq unfilled_unfilled keys_of_node[OF False]
      by (simp add: Un_ac del: segment.simps)
  qed
qed


lemmas example_walk_defs =
  example_schema_def example_field_x_def example_helpers_def to_upper_def
  node_paths_def units_paths_def chain_path_def is_entry_node_def has_units_def

text \<open>
  C1, as the specification states it, fails: the keys are not only the paths of the
  \<open>field\<close> and \<open>attribute\<close> nodes. In the example schema the field \<open>x\<close> declares units,
  and the walker writes the key \<open>/ENTRY[entry]/x/@units\<close>, which is the path of no node.
\<close>

theorem generate_template_units_key_counterexample:
  "generate_template_from_nxdl example_helpers example_schema
       (Map.empty :: (unit, unit) template) None ''/ENTRY[entry]/x/@units'' = Some PyNone
   \<and> ''/ENTRY[entry]/x/@units''
       \<notin> set (node_paths example_helpers [] (get_first_group example_helpers example_schema))"
  by (simp add: generate_template_from_nxdl_def example_walk_defs)

text \<open>
  C1, amended. Below the first group, \<open>generate_template_from_nxdl\<close> sets to \<open>None\<close> the
  path of every node tagged \<open>field\<close> or \<open>attribute\<close> that is neither a \<open>doc\<close> node nor
  below one, and the \<open>@units\<close> path of every such field that declares units other than
  \<open>NX_UNITLESS\<close>; it leaves every other key of the template as it was. The path of a
  node is the concatenation, over the nodes from the first group down to it, of a slash
  and the node's segment: its \<open>name\<close>, otherwise the caps form of its \<open>type\<close> and the
  suggested name in brackets, otherwise empty, with \<open>@\<close> first for an \<open>attribute\<close> node.
\<close>

theorem generate_template_from_nxdl_keys:
  fixes t :: "('f, 'a) template"
  shows "generate_template_from_nxdl h root t None =
           unfilled (set (node_paths h [] (get_first_group h root))
                     \<union> set (units_paths h [] (get_first_group h root))) t"
  by (simp add: generate_template_from_nxdl_def generate_template_at_unfilled keys_of_def)

theorem generate_template_from_nxdl_keys_witness:
  "generate_template_from_nxdl example_helpers example_schema
       (Map.empty :: (unit, unit) template) None =
     unfilled {''/ENTRY[entry]/x'', ''/ENTRY[entry]/x/@long_name'', ''/ENTRY[entry]/x/@units'',
               ''/ENTRY[entry]/y'', ''/ENTRY[entry]/z''} Map.empty"
proof -
  have "set (node_paths example_helpers [] (get_first_group example_helpers example_schema))
          \<union> set (units_paths example_helpers [] (get_first_group example_helpers example_schema))
        = {''/ENTRY[entry]/x'', ''/ENTRY[entry]/x/@long_name'', ''/ENTRY[entry]/x/@units'',
           ''/ENTRY[entry]/y'', ''/ENTRY[entry]/z''}"
    by (simp add: example_walk_defs insert_commute)
  then show ?thesis
    using generate_template_from_nxdl_keys
      [of example_helpers example_schema "Map.empty :: (unit, unit) template"]
    by simp
qed

text \<open>
  C7. A node tagged \<open>field\<close>, visited with the path prefix \<open>p\<close>, gets its value key set
  to \<open>None\<close>. When its \<open>units\<close> attribute is present and not \<open>NX_UNITLESS\<close>, the node also
  writes the key \<open>path/@units\<close>, set to \<open>None\<close>, before its children are visited. When
  \<open>units\<close> is \<open>NX_UNITLESS\<close> or absent, the value key is the only one the node itself
  writes, so a field without children adds that key alone.
\<close>

theorem field_units_key:
  fixes t :: "('f, 'a) template"
  assumes "remove_namespace_from_tag h rtag = ''field''"
  shows "let n = Element rtag rattrib rchildren;
             path = p @ ''/'' @ segment h n;
             t' = generate_template_at h n t p
         in t' path = Some PyNone
            \<and> (if rattrib ''units'' \<noteq> None \<and> rattrib ''units'' \<noteq> Some ''NX_UNITLESS''
               then t' (path @ ''/@units'') = Some PyNone
                    \<and> t' = fold (\<lambda>child t. generate_template_at h child t path) rchildren
                             (t(path \<mapsto> PyNone, path @ ''/@units'' \<mapsto> PyNone))
               else t' = fold (\<lambda>child t. generate_template_at h child t path) rchildren
                          (t(path \<mapsto> PyNone))
                    \<and> (rchildren = [] \<longrightarrow> t' = t(path \<mapsto> PyNone)))"
proof -
  let ?n = "Element rtag rattrib rchildren"
  let ?path = "p @ ''/'' @ segment h ?n"
  let ?units = "rattrib ''units'' \<noteq> None \<and> rattrib ''units'' \<noteq> Some ''NX_UNITLESS''"
  have nd: "remove_namespace_from_tag h rtag \<noteq> ''doc''"
    using assms by simp
  have entry: "is_entry_node h ?n"
    using assms by (simp add: is_entry_node_def)
  have units: "has_units h ?n \<longleftrightarrow> ?units"
    using assms by (simp add: has_units_def)
  have value_key: "generate_template_at h ?n t p ?path = Some PyNone"
    unfolding generate_template_at_unfilled keys_of_node[OF nd]
    using entry by (simp add: unfilled_def del: segment.simps)
  have units_key: "generate_template_at h ?n t p (?path @ ''/@units'') = Some PyNone" if "?units"
    unfolding generate_template_at_unfilled keys_of_node[OF nd]
    using that units by (simp add: unfilled_def del: segment.simps)
  have body: "generate_template_at h ?n t p =
      fold (\<lambda>child t. generate_template_at h child t ?path) rchildren
        (if ?units then t(?path \<mapsto> PyNone, ?path @ ''/@units'' \<mapsto> PyNone)
         else t(?path \<mapsto> PyNone))"
    using nd entry units
    by (subst generate_template_at_unfold) (simp add: Let_def del: segment.simps)
  show ?thesis
    unfolding Let_def using value_key units_key body
    by (auto simp del: segment.simps generate_template_at.simps)
qed

theorem field_units_key_witness:
  "generate_template_at example_helpers
       (Element ''field'' [''name'' \<mapsto> ''x'', ''units'' \<mapsto> ''nm''] [])
       (Map.empty :: (unit, unit) template) ''/ENTRY[entry]''
     = [''/ENTRY[entry]/x'' \<mapsto> PyNone, ''/ENTRY[entry]/x/@units'' \<mapsto> PyNone]
   \<and> generate_template_at example_helpers
       (Element ''field'' [''name'' \<mapsto> ''y'', ''units'' \<mapsto> ''NX_UNITLESS''] [])
       (Map.empty :: (unit, unit) template) ''/ENTRY[entry]''
     = [''/ENTRY[entry]/y'' \<mapsto> PyNone]
   \<and> generate_template_at example_helpers
       (Element ''field'' [''name'' \<mapsto> ''z''] [])
       (Map.empty :: (unit, unit) template) ''/ENTRY[entry]''
     = [''/ENTRY[entry]/z'' \<mapsto> PyNone]"
proof -
  have tag: "remove_namespace_from_tag example_helpers ''field'' = ''field''"
    by (simp add: example_helpers_def)
  show ?thesis
    using
      field_units_key [OF tag, of "[''name'' \<mapsto> ''x'', ''units'' \<mapsto> ''nm'']" "[]"
        "''/ENTRY[entry]''" "Map.empty :: (unit, unit) template"]
      field_units_key [OF tag, of "[''name'' \<mapsto> ''y'', ''units'' \<mapsto> ''NX_UNITLESS'']" "[]"
        "''/ENTRY[entry]''" "Map.empty :: (unit, unit) template"]
      field_units_key [OF tag, of "[''name'' \<mapsto> ''z'']" "[]"
        "''/ENTRY[entry]''" "Map.empty :: (unit, unit) template"]
    by (simp add: Let_def example_helpers_def del: generate_template_at.simps)
qed

section \<open>Proofs: the loop over the files\<close>

lemma read_files_skip:
  assumes "\<not> usable env file_path"
  shows "read_files env (file_path # rest) (template, out) =
         read_files env rest (template, out @ [skip_warning env file_path])"
  using assms by (auto simp: usable_def skip_warning_def extensions_def Let_def)

lemma read_files_parse:
  assumes "usable env file_path"
  shows "read_files env (file_path # rest) (template, out) =
         and_then
           ((case map_of (extensions env) (splitext_ext file_path) of
               Some parse \<Rightarrow> parse
             | None \<Rightarrow> (\<lambda>_. Inr (Map.empty, []))) file_path)
           (\<lambda>(d, printed). read_files env rest (template ++ d, out @ printed))"
  using assms by (auto simp: usable_def extensions_def Let_def)

lemma read_files_dom:
  "read_files env paths (template, out) = Inr (template', out') \<Longrightarrow> dom template \<subseteq> dom template'"
proof (induction paths arbitrary: template out)
  case Nil
  then show ?case by simp
next
  case (Cons file_path rest)
  show ?case
  proof (cases "usable env file_path")
    case False
    with Cons.prems have "read_files env rest (template, out @ [skip_warning env file_path])
        = Inr (template', out')"
      by (simp only: read_files_skip[OF False])
    then show ?thesis by (rule Cons.IH)
  next
    case True
    let ?r = "(case map_of (extensions env) (splitext_ext file_path) of
               Some parse \<Rightarrow> parse
             | None \<Rightarrow> (\<lambda>_. Inr (Map.empty, []))) file_path"
    from Cons.prems have run: "and_then ?r
        (\<lambda>(d, printed). read_files env rest (template ++ d, out @ printed)) = Inr (template', out')"
      by (simp only: read_files_parse[OF True])
    then obtain d printed where "?r = Inr (d, printed)"
      by (cases ?r) auto
    with run have "read_files env rest (template ++ d, out @ printed) = Inr (template', out')"
      by simp
    then have "dom (template ++ d) \<subseteq> dom template'" by (rule Cons.IH)
    then show ?thesis by auto
  qed
qed

lemma read_files_filter:
  "map_sum id fst (read_files env paths (template, out)) =
   map_sum id fst (read_files env (filter (usable env) paths) (template, out'))"
proof (induction paths arbitrary: template out out')
  case Nil
  show ?case by simp
next
  case (Cons file_path rest)
  show ?case
  proof (cases "usable env file_path")
    case False
    then show ?thesis
      by (simp only: read_files_skip[OF False] filter.simps if_False) (rule Cons.IH)
  next
    case True
    let ?r = "(case map_of (extensions env) (splitext_ext file_path) of
               Some parse \<Rightarrow> parse
             | None \<Rightarrow> (\<lambda>_. Inr (Map.empty, []))) file_path"
    show ?thesis
    proof (cases ?r)
      case (Inl e)
      with True show ?thesis by (simp only: read_files_parse[OF True] filter.simps if_True) simp
    next
      case (Inr res)
      obtain d printed where "res = (d, printed)" by (cases res)
      with Inr True Cons.IH[of "template ++ d" "out @ printed" "out' @ printed"] show ?thesis
        by (simp only: read_files_parse[OF True] filter.simps if_True) simp
    qed
  qed
qed

lemma read_files_all_skipped:
  "list_all (\<lambda>p. \<not> usable env p) paths \<Longrightarrow>
   read_files env paths (template, out) = Inr (template, out @ map (skip_warning env) paths)"
proof (induction paths arbitrary: out)
  case Nil
  show ?case by simp
next
  case (Cons file_path rest)
  then show ?case by (simp add: read_files_skip del: read_files.simps)
qed

lemma read_unfold:
  "TransmissionReader_read env (Some template) (Some file_paths) =
   read_files env (sort_key splitext_ext file_paths) (template ++ fixed_entries, [])"
  by (simp add: TransmissionReader_read_def fixed_entries_def Let_def)


lemma sort_key_same_order:
  fixes f :: "'x \<Rightarrow> 'k::linorder"
  assumes "mset ps = mset qs"
    and "\<forall>e. filter (\<lambda>p. f p = e) ps = filter (\<lambda>p. f p = e) qs"
  shows "sort_key f ps = sort_key f qs"
proof (rule properties_for_sort_key)
  show "mset (sort_key f qs) = mset ps"
    using assms(1) by simp
  show "sorted (map f (sort_key f qs))"
    by simp
  fix k
  have "filter (\<lambda>x. f x = f k) (sort_key f qs) = filter (\<lambda>x. f x = f k) qs"
    by (rule sort_key_stable)
  also have "\<dots> = filter (\<lambda>x. f x = f k) ps"
    using assms(2) by simp
  finally show "filter (\<lambda>x. f k = f x) (sort_key f qs) = filter (\<lambda>x. f k = f x) ps"
    by (simp add: eq_commute[of "f k"])
qed

lemma sort_key_distinct_keys:
  fixes f :: "'x \<Rightarrow> 'k::linorder"
  assumes "mset ps = mset qs" and "distinct (map f ps)"
  shows "sort_key f ps = sort_key f qs"
proof (rule sort_key_inj_key_eq)
  show "mset ps = mset (sort_key f qs)"
    using assms(1) by simp
  show "inj_on f (set ps)"
    using assms(2) by (simp add: distinct_map)
  show "sorted (map f (sort_key f qs))"
    by simp
qed

lemmas example_reader_defs =
  example_env_def example_files_def splitext_ext_def extensions_def
  parse_json_def parse_yml_def CONVERT_DICT_def REPLACE_NESTED_def
  usable_def skip_warning_def fixed_entries_def

section \<open>Proofs: the claims about the reader\<close>

text \<open>
  C2. Whatever the template and the file paths, a template that
  \<open>TransmissionReader.read\<close> returns holds every key of the template it was given.
\<close>

theorem read_keeps_keys:
  assumes "TransmissionReader_read env (Some template) (Some file_paths) = Inr (template', out)"
  shows "dom template \<subseteq> dom template'"
proof -
  have "dom (template ++ fixed_entries) \<subseteq> dom template'"
    using assms unfolding read_unfold by (rule read_files_dom)
  then show ?thesis by auto
qed

theorem read_keeps_keys_witness:
  "TransmissionReader_read example_env
       (Some [''/ENTRY[entry]/operator'' \<mapsto> PyNone, ''/ENTRY[entry]/data/wavelength'' \<mapsto> PyNone])
       (Some [''a.json''])
     = Inr (([''/ENTRY[entry]/operator'' \<mapsto> PyNone, ''/ENTRY[entry]/data/wavelength'' \<mapsto> PyNone]
               ++ fixed_entries)(''/ENTRY[entry]/operator'' \<mapsto> PyStr ''a''), [])
   \<and> dom [''/ENTRY[entry]/operator'' \<mapsto> (PyNone :: (string, string list list) pyval),
           ''/ENTRY[entry]/data/wavelength'' \<mapsto> PyNone]
       \<subseteq> dom (([''/ENTRY[entry]/operator'' \<mapsto> PyNone, ''/ENTRY[entry]/data/wavelength'' \<mapsto> PyNone]
               ++ fixed_entries)(''/ENTRY[entry]/operator'' \<mapsto> PyStr ''a''))"
proof -
  have run: "TransmissionReader_read example_env
       (Some [''/ENTRY[entry]/operator'' \<mapsto> PyNone, ''/ENTRY[entry]/data/wavelength'' \<mapsto> PyNone])
       (Some [''a.json''])
     = Inr (([''/ENTRY[entry]/operator'' \<mapsto> PyNone, ''/ENTRY[entry]/data/wavelength'' \<mapsto> PyNone]
               ++ fixed_entries)(''/ENTRY[entry]/operator'' \<mapsto> PyStr ''a''), [])"
    unfolding read_unfold by (simp add: example_reader_defs)
  from read_keeps_keys[OF run] run show ?thesis by simp
qed


text \<open>
  C3, as the specification states it, fails: \<open>sorted\<close> is stable, so two files with the
  same extension are read in the order of the arguments, and the later one wins. The two
  JSON files of the example both hold the operator.
\<close>

theorem read_argument_order_counterexample:
  "mset [''a.json'', ''b.json''] = mset [''b.json'', ''a.json'']
   \<and> value_at (TransmissionReader_read example_env (Some Map.empty) (Some [''a.json'', ''b.json'']))
         ''/ENTRY[entry]/operator'' = Inr (Some (PyStr ''b''))
   \<and> value_at (TransmissionReader_read example_env (Some Map.empty) (Some [''b.json'', ''a.json'']))
         ''/ENTRY[entry]/operator'' = Inr (Some (PyStr ''a''))
   \<and> TransmissionReader_read example_env (Some Map.empty) (Some [''a.json'', ''b.json''])
       \<noteq> TransmissionReader_read example_env (Some Map.empty) (Some [''b.json'', ''a.json''])"
proof -
  have ab: "value_at (TransmissionReader_read example_env (Some Map.empty) (Some [''a.json'', ''b.json'']))
         ''/ENTRY[entry]/operator'' = Inr (Some (PyStr ''b''))"
    unfolding read_unfold by (simp add: example_reader_defs value_at_def)
  have ba: "value_at (TransmissionReader_read example_env (Some Map.empty) (Some [''b.json'', ''a.json'']))
         ''/ENTRY[entry]/operator'' = Inr (Some (PyStr ''a''))"
    unfolding read_unfold by (simp add: example_reader_defs value_at_def)
  have "TransmissionReader_read example_env (Some Map.empty) (Some [''a.json'', ''b.json''])
       \<noteq> TransmissionReader_read example_env (Some Map.empty) (Some [''b.json'', ''a.json''])"
  proof
    assume "TransmissionReader_read example_env (Some Map.empty) (Some [''a.json'', ''b.json''])
       = TransmissionReader_read example_env (Some Map.empty) (Some [''b.json'', ''a.json''])"
    with ab ba show False by simp
  qed
  with ab ba show ?thesis by simp
qed

text \<open>
  C3, amended. \<open>TransmissionReader.read\<close> gives the same result for two sequences of
  file paths that are permutations of each other and list the files of each extension
  in the same order; this is so whenever the extensions are pairwise distinct. The files
  are processed sorted by extension, those of one extension in the order of the
  arguments, and a later file overwrites the keys of an earlier one.
\<close>

theorem read_order_independent:
  "(mset ps = mset qs
      \<and> (\<forall>e. filter (\<lambda>p. splitext_ext p = e) ps = filter (\<lambda>p. splitext_ext p = e) qs)
    \<longrightarrow> TransmissionReader_read env template (Some ps)
        = TransmissionReader_read env template (Some qs))
   \<and> (mset ps = mset qs \<and> distinct (map splitext_ext ps)
    \<longrightarrow> TransmissionReader_read env template (Some ps)
        = TransmissionReader_read env template (Some qs))"
proof (intro conjI impI)
  assume "mset ps = mset qs
      \<and> (\<forall>e. filter (\<lambda>p. splitext_ext p = e) ps = filter (\<lambda>p. splitext_ext p = e) qs)"
  then have "sort_key splitext_ext ps = sort_key splitext_ext qs"
    by (intro sort_key_same_order) simp_all
  then show "TransmissionReader_read env template (Some ps)
        = TransmissionReader_read env template (Some qs)"
    by (cases template) (simp_all add: TransmissionReader_read_def)
next
  assume "mset ps = mset qs \<and> distinct (map splitext_ext ps)"
  then have "sort_key splitext_ext ps = sort_key splitext_ext qs"
    by (intro sort_key_distinct_keys) simp_all
  then show "TransmissionReader_read env template (Some ps)
        = TransmissionReader_read env template (Some qs)"
    by (cases template) (simp_all add: TransmissionReader_read_def)
qed

theorem read_order_independent_witness:
  "TransmissionReader_read example_env (Some Map.empty) (Some [''meta.yml'', ''data.asc''])
   = TransmissionReader_read example_env (Some Map.empty) (Some [''data.asc'', ''meta.yml''])
   \<and> TransmissionReader_read example_env (Some Map.empty) (Some [''b.json'', ''meta.yml'', ''a.json''])
   = TransmissionReader_read example_env (Some Map.empty) (Some [''meta.yml'', ''b.json'', ''a.json''])"
proof -
  have d: "mset [''meta.yml'', ''data.asc''] = mset [''data.asc'', ''meta.yml'']
      \<and> distinct (map splitext_ext [''meta.yml'', ''data.asc''])"
    by (simp add: splitext_ext_def)
  have e: "splitext_ext ''a.json'' = ''.json''" "splitext_ext ''b.json'' = ''.json''"
    "splitext_ext ''meta.yml'' = ''.yml''"
    by (simp_all add: splitext_ext_def)
  have s: "mset [''b.json'', ''meta.yml'', ''a.json''] = mset [''meta.yml'', ''b.json'', ''a.json'']
      \<and> (\<forall>e. filter (\<lambda>p. splitext_ext p = e) [''b.json'', ''meta.yml'', ''a.json'']
             = filter (\<lambda>p. splitext_ext p = e) [''meta.yml'', ''b.json'', ''a.json''])"
    by (auto simp: e)
  show ?thesis
    using
      read_order_independent [of "[''meta.yml'', ''data.asc'']" "[''data.asc'', ''meta.yml'']"
        example_env "Some Map.empty"]
      read_order_independent [of "[''b.json'', ''meta.yml'', ''a.json'']"
        "[''meta.yml'', ''b.json'', ''a.json'']" example_env "Some Map.empty"]
      d s
    by blast
qed

text \<open>
  C5. A file whose extension is not \<open>.asc\<close>, \<open>.json\<close>, \<open>.yml\<close> or \<open>.yaml\<close>, or that does
  not exist, is skipped: the loop prints one warning, leaves the template as it is and
  goes on with the remaining files. So the run ends as it does on the other files alone,
  with the same template or the same exception, and it returns when no file is parsed.
\<close>

theorem read_skips_unusable_files:
  "(\<not> usable env file_path \<longrightarrow>
      read_files env (file_path # rest) (template, out)
      = read_files env rest (template, out @ [skip_warning env file_path]))
   \<and> map_sum id fst (TransmissionReader_read env given (Some file_paths))
     = map_sum id fst (TransmissionReader_read env given (Some (filter (usable env) file_paths)))
   \<and> (list_all (\<lambda>p. \<not> usable env p) file_paths \<longrightarrow>
      TransmissionReader_read env (Some template) (Some file_paths)
      = Inr (template ++ fixed_entries, map (skip_warning env) (sort_key splitext_ext file_paths)))"
proof (intro conjI impI)
  assume "\<not> usable env file_path"
  then show "read_files env (file_path # rest) (template, out)
      = read_files env rest (template, out @ [skip_warning env file_path])"
    by (rule read_files_skip)
next
  show "map_sum id fst (TransmissionReader_read env given (Some file_paths))
     = map_sum id fst (TransmissionReader_read env given (Some (filter (usable env) file_paths)))"
  proof (cases given)
    case None
    then show ?thesis by (simp add: TransmissionReader_read_def)
  next
    case (Some t)
    show ?thesis
      unfolding Some read_unfold filter_sort[symmetric]
      by (rule read_files_filter)
  qed
next
  assume "list_all (\<lambda>p. \<not> usable env p) file_paths"
  then have "list_all (\<lambda>p. \<not> usable env p) (sort_key splitext_ext file_paths)"
    by (simp add: list_all_iff)
  then show "TransmissionReader_read env (Some template) (Some file_paths)
      = Inr (template ++ fixed_entries, map (skip_warning env) (sort_key splitext_ext file_paths))"
    unfolding read_unfold by (simp add: read_files_all_skipped del: read_files.simps)
qed

theorem read_skips_unusable_files_witness:
  "read_files example_env [''x.csv'', ''a.json''] (Map.empty, [])
     = read_files example_env [''a.json'']
         (Map.empty, [''WARNING: File x.csv has an unsupported extension, ignoring file.''])
   \<and> map_sum id fst (TransmissionReader_read example_env (Some Map.empty)
         (Some [''missing.json'', ''a.json'', ''x.csv'']))
     = map_sum id fst (TransmissionReader_read example_env (Some Map.empty) (Some [''a.json'']))
   \<and> TransmissionReader_read example_env (Some Map.empty) (Some [''missing.json'', ''x.csv''])
     = Inr (fixed_entries,
            [''WARNING: File x.csv has an unsupported extension, ignoring file.'',
             ''WARNING: File missing.json does not exist, ignoring entry.''])"
proof -
  have u: "\<not> usable example_env ''x.csv''" "\<not> usable example_env ''missing.json''"
    "usable example_env ''a.json''"
    by (simp_all add: example_reader_defs)
  have w: "skip_warning example_env ''x.csv''
      = ''WARNING: File x.csv has an unsupported extension, ignoring file.''"
    "skip_warning example_env ''missing.json''
      = ''WARNING: File missing.json does not exist, ignoring entry.''"
    by (simp_all add: example_reader_defs)
  have o: "sort_key splitext_ext [''missing.json'', ''x.csv''] = [''x.csv'', ''missing.json'']"
    by (simp add: splitext_ext_def)
  show ?thesis
    using
      read_skips_unusable_files [of example_env "''x.csv''" "[''a.json'']" Map.empty "[]"
        "Some Map.empty" "[''missing.json'', ''a.json'', ''x.csv'']"]
      read_skips_unusable_files [of example_env "''x.csv''" "[]" Map.empty "[]"
        "Some Map.empty" "[''missing.json'', ''x.csv'']"]
      u w o
    by (simp del: read_files.simps)
qed

text \<open>
  C9. Before it looks at any file, \<open>TransmissionReader.read\<close> sets the five fixed keys,
  whatever the template and the file paths: the loop over the files starts from the
  template with these entries. With no file, the result is the given template with the
  five entries. A template that \<open>read\<close> returns holds the five keys.
\<close>

theorem read_sets_fixed_entries:
  "TransmissionReader_read env (Some template) (Some file_paths)
     = read_files env (sort_key splitext_ext file_paths) (template ++ fixed_entries, [])
   \<and> TransmissionReader_read env (Some template) (Some []) = Inr (template ++ fixed_entries, [])
   \<and> (template ++ fixed_entries) ''/@default'' = Some (PyStr ''entry'')
   \<and> (template ++ fixed_entries) ''/ENTRY[entry]/@default'' = Some (PyStr ''data'')
   \<and> (template ++ fixed_entries) ''/ENTRY[entry]/definition'' = Some (PyStr ''NXtransmission'')
   \<and> (template ++ fixed_entries) ''/ENTRY[entry]/definition/@version'' = Some (PyStr ''v2022.06'')
   \<and> (template ++ fixed_entries) ''/ENTRY[entry]/definition/@url''
       = Some (PyStr ''https://fairmat-experimental.github.io/nexus-fairmat-proposal/50433d9039b3f33299bab338998acb5335cd8951/index.html'')
   \<and> (\<forall>template' out.
         TransmissionReader_read env (Some template) (Some file_paths) = Inr (template', out)
         \<longrightarrow> {''/@default'', ''/ENTRY[entry]/@default'', ''/ENTRY[entry]/definition'',
              ''/ENTRY[entry]/definition/@version'', ''/ENTRY[entry]/definition/@url''}
             \<subseteq> dom template')"
proof -
  have keys: "{''/@default'', ''/ENTRY[entry]/@default'', ''/ENTRY[entry]/definition'',
              ''/ENTRY[entry]/definition/@version'', ''/ENTRY[entry]/definition/@url''}
      \<subseteq> dom (template ++ fixed_entries)"
    by (simp add: fixed_entries_def)
  have kept: "{''/@default'', ''/ENTRY[entry]/@default'', ''/ENTRY[entry]/definition'',
              ''/ENTRY[entry]/definition/@version'', ''/ENTRY[entry]/definition/@url''}
      \<subseteq> dom template'"
    if "TransmissionReader_read env (Some template) (Some file_paths) = Inr (template', out)"
    for template' out
  proof -
    have "dom (template ++ fixed_entries) \<subseteq> dom template'"
      using that unfolding read_unfold by (rule read_files_dom)
    with keys show ?thesis by (rule subset_trans)
  qed
  have vals: "(template ++ fixed_entries) ''/@default'' = Some (PyStr ''entry'')"
    "(template ++ fixed_entries) ''/ENTRY[entry]/@default'' = Some (PyStr ''data'')"
    "(template ++ fixed_entries) ''/ENTRY[entry]/definition'' = Some (PyStr ''NXtransmission'')"
    "(template ++ fixed_entries) ''/ENTRY[entry]/definition/@version'' = Some (PyStr ''v2022.06'')"
    "(template ++ fixed_entries) ''/ENTRY[entry]/definition/@url''
       = Some (PyStr ''https://fairmat-experimental.github.io/nexus-fairmat-proposal/50433d9039b3f33299bab338998acb5335cd8951/index.html'')"
    by (simp_all add: fixed_entries_def)
  have empty: "TransmissionReader_read env (Some template) (Some []) = Inr (template ++ fixed_entries, [])"
    unfolding read_unfold by simp
  show ?thesis
  proof (intro conjI allI impI)
    show "TransmissionReader_read env (Some template) (Some file_paths)
       = read_files env (sort_key splitext_ext file_paths) (template ++ fixed_entries, [])"
      by (rule read_unfold)
    show "TransmissionReader_read env (Some template) (Some []) = Inr (template ++ fixed_entries, [])"
      by (rule empty)
    show "(template ++ fixed_entries) ''/@default'' = Some (PyStr ''entry'')"
      by (rule vals)
    show "(template ++ fixed_entries) ''/ENTRY[entry]/@default'' = Some (PyStr ''data'')"
      by (rule vals)
    show "(template ++ fixed_entries) ''/ENTRY[entry]/definition'' = Some (PyStr ''NXtransmission'')"
      by (rule vals)
    show "(template ++ fixed_entries) ''/ENTRY[entry]/definition/@version'' = Some (PyStr ''v2022.06'')"
      by (rule vals)
    show "(template ++ fixed_entries) ''/ENTRY[entry]/definition/@url''
       = Some (PyStr ''https://fairmat-experimental.github.io/nexus-fairmat-proposal/50433d9039b3f33299bab338998acb5335cd8951/index.html'')"
      by (rule vals)
    fix template' out
    assume "TransmissionReader_read env (Some template) (Some file_paths) = Inr (template', out)"
    then show "{''/@default'', ''/ENTRY[entry]/@default'', ''/ENTRY[entry]/definition'',
              ''/ENTRY[entry]/definition/@version'', ''/ENTRY[entry]/definition/@url''}
             \<subseteq> dom template'"
      by (rule kept)
  qed
qed

theorem read_sets_fixed_entries_witness:
  "TransmissionReader_read example_env (Some Map.empty) (Some []) = Inr (fixed_entries, [])
   \<and> TransmissionReader_read example_env (Some Map.empty) (Some [''a.json''])
     = Inr (fixed_entries(''/ENTRY[entry]/operator'' \<mapsto> PyStr ''a''), [])
   \<and> {''/@default'', ''/ENTRY[entry]/@default'', ''/ENTRY[entry]/definition'',
       ''/ENTRY[entry]/definition/@version'', ''/ENTRY[entry]/definition/@url''}
      \<subseteq> dom (fixed_entries(''/ENTRY[entry]/operator'' \<mapsto>
                   (PyStr ''a'' :: (string, string list list) pyval)))"
proof -
  have run: "TransmissionReader_read example_env (Some Map.empty) (Some [''a.json''])
     = Inr (fixed_entries(''/ENTRY[entry]/operator'' \<mapsto> PyStr ''a''), [])"
    unfolding read_unfold by (simp add: example_reader_defs)
  have none: "TransmissionReader_read example_env (Some Map.empty) (Some [])
     = Inr (Map.empty ++ fixed_entries, [])"
    using read_sets_fixed_entries [of example_env Map.empty "[]"] by (elim conjE)
  have "\<forall>template' out.
         TransmissionReader_read example_env (Some Map.empty) (Some [''a.json''])
           = Inr (template', out)
         \<longrightarrow> {''/@default'', ''/ENTRY[entry]/@default'', ''/ENTRY[entry]/definition'',
              ''/ENTRY[entry]/definition/@version'', ''/ENTRY[entry]/definition/@url''}
             \<subseteq> dom template'"
    using read_sets_fixed_entries [of example_env Map.empty "[''a.json'']"] by (elim conjE)
  with run have "{''/@default'', ''/ENTRY[entry]/@default'', ''/ENTRY[entry]/definition'',
       ''/ENTRY[entry]/definition/@version'', ''/ENTRY[entry]/definition/@url''}
      \<subseteq> dom (fixed_entries(''/ENTRY[entry]/operator'' \<mapsto>
                   (PyStr ''a'' :: (string, string list list) pyval)))"
    by (elim allE impE) assumption
  with run none show ?thesis
    by (simp only: empty_map_add simp_thms)
qed

text \<open>
  C10. A dictionary that \<open>data_to_template\<close> returns maps \<open>/ENTRY[entry]/data/@signal\<close>
  to \<open>transmission\<close> (the earlier value \<open>data\<close> is overwritten), \<open>/ENTRY[entry]/data/@axes\<close>
  to \<open>wavelength\<close> and \<open>/ENTRY[entry]/data/type\<close> to \<open>transmission\<close>.
\<close>

theorem data_to_template_signal:
  assumes "data_to_template env data = Inr template"
  shows "template ''/ENTRY[entry]/data/@signal'' = Some (PyStr ''transmission'')
         \<and> template ''/ENTRY[entry]/data/@axes'' = Some (PyStr ''wavelength'')
         \<and> template ''/ENTRY[entry]/data/type'' = Some (PyStr ''transmission'')"
proof (cases "first_column env (df_values data)")
  case (Inl e)
  with assms show ?thesis by (simp add: data_to_template_def)
next
  case (Inr column)
  with assms show ?thesis by (auto simp: data_to_template_def)
qed

theorem data_to_template_signal_witness:
  "data_to_template example_env \<lparr>index_values = [[''300.0'']], df_values = [[''0.51'']]\<rparr>
     = Inr [''/ENTRY[entry]/data/@axes'' \<mapsto> PyStr ''wavelength'',
            ''/ENTRY[entry]/data/type'' \<mapsto> PyStr ''transmission'',
            ''/ENTRY[entry]/data/@signal'' \<mapsto> PyStr ''transmission'',
            ''/ENTRY[entry]/data/wavelength'' \<mapsto> PyArray [[''300.0'']],
            ''/ENTRY[entry]/instrument/spectrometer/wavelength'' \<mapsto> PyArray [[''300.0'']],
            ''/ENTRY[entry]/data/wavelength/@units'' \<mapsto> PyStr ''nm'',
            ''/ENTRY[entry]/data/transmission'' \<mapsto> PyArray [[''0.51'']],
            ''/ENTRY[entry]/instrument/measured_data'' \<mapsto> PyArray [[''0.51'']]]
   \<and> [''/ENTRY[entry]/data/@axes'' \<mapsto> PyStr ''wavelength'',
            ''/ENTRY[entry]/data/type'' \<mapsto> PyStr ''transmission'',
            ''/ENTRY[entry]/data/@signal'' \<mapsto> PyStr ''transmission'',
            ''/ENTRY[entry]/data/wavelength'' \<mapsto> PyArray [[''300.0'']],
            ''/ENTRY[entry]/instrument/spectrometer/wavelength'' \<mapsto> PyArray [[''300.0'']],
            ''/ENTRY[entry]/data/wavelength/@units'' \<mapsto> PyStr ''nm'',
            ''/ENTRY[entry]/data/transmission'' \<mapsto> PyArray [[''0.51'']],
            ''/ENTRY[entry]/instrument/measured_data'' \<mapsto>
              (PyArray [[''0.51'']] :: (string, string list list) pyval)]
       ''/ENTRY[entry]/data/@signal'' = Some (PyStr ''transmission'')"
proof -
  have run: "data_to_template example_env \<lparr>index_values = [[''300.0'']], df_values = [[''0.51'']]\<rparr>
     = Inr [''/ENTRY[entry]/data/@axes'' \<mapsto> PyStr ''wavelength'',
            ''/ENTRY[entry]/data/type'' \<mapsto> PyStr ''transmission'',
            ''/ENTRY[entry]/data/@signal'' \<mapsto> PyStr ''transmission'',
            ''/ENTRY[entry]/data/wavelength'' \<mapsto> PyArray [[''300.0'']],
            ''/ENTRY[entry]/instrument/spectrometer/wavelength'' \<mapsto> PyArray [[''300.0'']],
            ''/ENTRY[entry]/data/wavelength/@units'' \<mapsto> PyStr ''nm'',
            ''/ENTRY[entry]/data/transmission'' \<mapsto> PyArray [[''0.51'']],
            ''/ENTRY[entry]/instrument/measured_data'' \<mapsto> PyArray [[''0.51'']]]"
    by (simp add: data_to_template_def example_env_def)
  from data_to_template_signal[OF run] run show ?thesis by simp
qed

section \<open>Proofs: the metadata map\<close>

lemma py_index_in_range:
  "- int (length xs) \<le> i \<Longrightarrow> i < int (length xs) \<Longrightarrow>
   py_index xs i = Inr (xs ! nat (if i < 0 then int (length xs) + i else i))"
  by (simp add: py_index_def)

lemma apply_rule_applies:
  assumes "rule_applies metadata r"
  shows "apply_rule metadata (template, out) (path, r) =
         Inr (case rule_value metadata r of None \<Rightarrow> template | Some v \<Rightarrow> template(path \<mapsto> v),
              out @ rule_warning (path, r))"
proof (cases r)
  case (RuleInt i)
  with assms show ?thesis by (simp add: py_index_in_range)
next
  case (RuleStr s)
  then show ?thesis by simp
next
  case (RuleFunction f)
  with assms show ?thesis by (cases "f metadata") simp_all
next
  case (RuleOther ty val)
  then show ?thesis by simp
qed

lemma apply_rules_result:
  assumes "distinct (map fst metadata_map)"
    and "list_all (\<lambda>entry. rule_applies metadata (snd entry)) metadata_map"
  shows "apply_rules metadata metadata_map (template, out) =
         Inr (template ++ (\<lambda>path. Option.bind (map_of metadata_map path) (rule_value metadata)),
              out @ concat (map rule_warning metadata_map))"
  using assms
proof (induction metadata_map arbitrary: template out)
  case Nil
  show ?case by (simp add: map_add_def)
next
  case (Cons entry rest)
  obtain path r where entry: "entry = (path, r)" by (cases entry)
  let ?t1 = "case rule_value metadata r of None \<Rightarrow> template | Some v \<Rightarrow> template(path \<mapsto> v)"
  have ok: "rule_applies metadata r" using Cons.prems(2) entry by simp
  have fresh: "map_of rest path = None"
    using Cons.prems(1) entry by (simp add: map_of_eq_None_iff)
  have step: "apply_rules metadata (entry # rest) (template, out) =
      apply_rules metadata rest (?t1, out @ rule_warning (path, r))"
    unfolding entry by (simp add: apply_rule_applies[OF ok] del: apply_rule.simps rule_warning.simps)
  have ih: "apply_rules metadata rest (?t1, out @ rule_warning (path, r)) =
      Inr (?t1 ++ (\<lambda>p. Option.bind (map_of rest p) (rule_value metadata)),
           (out @ rule_warning (path, r)) @ concat (map rule_warning rest))"
    using Cons.prems by (intro Cons.IH) simp_all
  have maps: "?t1 ++ (\<lambda>p. Option.bind (map_of rest p) (rule_value metadata)) =
      template ++ (\<lambda>p. Option.bind (map_of (entry # rest) p) (rule_value metadata))"
    unfolding entry using fresh
    by (auto simp: fun_eq_iff map_add_def split: option.splits)
  show ?case
    unfolding step ih maps by (simp add: entry del: rule_warning.simps)
qed

section \<open>Proofs: the claim about the metadata map\<close>

text \<open>
  C4. Over the preamble lines, the loop of \<open>parse_asc\<close> fills the path of every entry of
  the metadata map by its rule: an integer rule with the line at that index, as a string;
  a string rule with the literal; a function rule with what the function returns on the
  list of all preamble lines. A rule of another type fills nothing: its path stays
  absent, one warning is printed, and the loop goes on with the entries after it. This
  holds when every index is within the preamble and every function returns; the paths of
  a dictionary are distinct.
\<close>

theorem metadata_rules_evaluated:
  assumes "distinct (map fst metadata_map)"
    and "list_all (\<lambda>entry. rule_applies metadata (snd entry)) metadata_map"
  shows "apply_rules metadata metadata_map (Map.empty, []) =
         Inr (\<lambda>path. Option.bind (map_of metadata_map path) (rule_value metadata),
              concat (map rule_warning metadata_map))"
  using apply_rules_result[OF assms, of Map.empty "[]"] by simp

theorem metadata_rules_evaluated_witness:
  "value_at
     (apply_rules [''PE UV'', ''sample A'', ''22/06/01'']
        [(''/ENTRY[entry]/SAMPLE[sample]/name'', RuleInt 1),
         (''/ENTRY[entry]/gain'', RuleOther ''<class float>'' ''1.5''),
         (''/ENTRY[entry]/instrument/SOURCE[source]/type'', RuleStr ''D2''),
         (''/ENTRY[entry]/lines'', RuleFunction (\<lambda>md. Inr (PyInt (int (length md))))),
         (''/ENTRY[entry]/start_time'', RuleInt (- 1))]
        (Map.empty :: (unit, unit) template, []))
     ''/ENTRY[entry]/SAMPLE[sample]/name'' = Inr (Some (PyStr ''sample A''))
   \<and> value_at
     (apply_rules [''PE UV'', ''sample A'', ''22/06/01'']
        [(''/ENTRY[entry]/SAMPLE[sample]/name'', RuleInt 1),
         (''/ENTRY[entry]/gain'', RuleOther ''<class float>'' ''1.5''),
         (''/ENTRY[entry]/instrument/SOURCE[source]/type'', RuleStr ''D2''),
         (''/ENTRY[entry]/lines'', RuleFunction (\<lambda>md. Inr (PyInt (int (length md))))),
         (''/ENTRY[entry]/start_time'', RuleInt (- 1))]
        (Map.empty :: (unit, unit) template, []))
     ''/ENTRY[entry]/gain'' = Inr None
   \<and> value_at
     (apply_rules [''PE UV'', ''sample A'', ''22/06/01'']
        [(''/ENTRY[entry]/SAMPLE[sample]/name'', RuleInt 1),
         (''/ENTRY[entry]/gain'', RuleOther ''<class float>'' ''1.5''),
         (''/ENTRY[entry]/instrument/SOURCE[source]/type'', RuleStr ''D2''),
         (''/ENTRY[entry]/lines'', RuleFunction (\<lambda>md. Inr (PyInt (int (length md))))),
         (''/ENTRY[entry]/start_time'', RuleInt (- 1))]
        (Map.empty :: (unit, unit) template, []))
     ''/ENTRY[entry]/instrument/SOURCE[source]/type'' = Inr (Some (PyStr ''D2''))
   \<and> value_at
     (apply_rules [''PE UV'', ''sample A'', ''22/06/01'']
        [(''/ENTRY[entry]/SAMPLE[sample]/name'', RuleInt 1),
         (''/ENTRY[entry]/gain'', RuleOther ''<class float>'' ''1.5''),
         (''/ENTRY[entry]/instrument/SOURCE[source]/type'', RuleStr ''D2''),
         (''/ENTRY[entry]/lines'', RuleFunction (\<lambda>md. Inr (PyInt (int (length md))))),
         (''/ENTRY[entry]/start_time'', RuleInt (- 1))]
        (Map.empty :: (unit, unit) template, []))
     ''/ENTRY[entry]/lines'' = Inr (Some (PyInt 3))
   \<and> value_at
     (apply_rules [''PE UV'', ''sample A'', ''22/06/01'']
        [(''/ENTRY[entry]/SAMPLE[sample]/name'', RuleInt 1),
         (''/ENTRY[entry]/gain'', RuleOther ''<class float>'' ''1.5''),
         (''/ENTRY[entry]/instrument/SOURCE[source]/type'', RuleStr ''D2''),
         (''/ENTRY[entry]/lines'', RuleFunction (\<lambda>md. Inr (PyInt (int (length md))))),
         (''/ENTRY[entry]/start_time'', RuleInt (- 1))]
        (Map.empty :: (unit, unit) template, []))
     ''/ENTRY[entry]/start_time'' = Inr (Some (PyStr ''22/06/01''))
   \<and> map_sum id snd
     (apply_rules [''PE UV'', ''sample A'', ''22/06/01'']
        [(''/ENTRY[entry]/SAMPLE[sample]/name'', RuleInt 1),
         (''/ENTRY[entry]/gain'', RuleOther ''<class float>'' ''1.5''),
         (''/ENTRY[entry]/instrument/SOURCE[source]/type'', RuleStr ''D2''),
         (''/ENTRY[entry]/lines'', RuleFunction (\<lambda>md. Inr (PyInt (int (length md))))),
         (''/ENTRY[entry]/start_time'', RuleInt (- 1))]
        (Map.empty :: (unit, unit) template, []))
     = Inr [''WARNING: Invalid type value <class float> of entry '' @ [CHR 0x27]
             @ ''/ENTRY[entry]/gain:1.5'' @ [CHR 0x27] @ '' in METADATA_MAP'']"
proof -
  let ?md = "[''PE UV'', ''sample A'', ''22/06/01'']"
  let ?map = "[(''/ENTRY[entry]/SAMPLE[sample]/name'', RuleInt 1),
         (''/ENTRY[entry]/gain'', RuleOther ''<class float>'' ''1.5''),
         (''/ENTRY[entry]/instrument/SOURCE[source]/type'', RuleStr ''D2''),
         (''/ENTRY[entry]/lines'', RuleFunction (\<lambda>md. Inr (PyInt (int (length md))))),
         (''/ENTRY[entry]/start_time'', RuleInt (- 1))] :: (string \<times> (unit, unit) rule) list"
  have d: "distinct (map fst ?map)" by simp
  have a: "list_all (\<lambda>entry. rule_applies ?md (snd entry)) ?map" by simp
  show ?thesis
    unfolding metadata_rules_evaluated[OF d a] by (simp add: value_at_def)
qed

section \<open>Proofs: the claim about the conversion routine\<close>

lemmas example_convert_defs =
  example_converter_environment_def get_reader_def os_path_join_def os_path_join2_def
  match_here_def lookahead_def TransmissionReader_def




section \<open>Proofs: the detectors\<close>

lemma traverse_Inr: "traverse (\<lambda>s. Inr (g s)) xs = Inr (map g xs)"
  by (induction xs) simp_all

lemma parse_detector_line_identity: "parse_detector_line line Inr = Inr (detector_tokens line)"
  by (simp add: parse_detector_line_def detector_tokens_def traverse_Inr)

lemma traverse_py_float:
  "list_all (\<lambda>s. float_of_string env s \<noteq> None) xs \<Longrightarrow>
   \<exists>fs. traverse (py_float env) xs = Inr fs \<and> length fs = length xs"
proof (induction xs)
  case Nil
  show ?case by simp
next
  case (Cons x xs)
  then obtain fs where "traverse (py_float env) xs = Inr fs" "length fs = length xs"
    by auto
  moreover obtain f where "float_of_string env x = Some f"
    using Cons.prems by auto
  then have "py_float env x = Inr f"
    by (simp add: py_float_def)
  ultimately show ?case by simp
qed

lemma numbers_parse:
  assumes "numbers env n tokens"
  shows "\<exists>fs. traverse (py_float env) tokens = Inr fs \<and> n \<le> length fs"
  using assms traverse_py_float[of env tokens] by (auto simp: numbers_def)

lemma parse_detector_line_float:
  "parse_detector_line line (py_float env) = traverse (py_float env) (detector_tokens line)"
proof -
  have "traverse (\<lambda>s. f (g s)) xs = traverse f (map g xs)" for f :: "string \<Rightarrow> py_error + 'x" and g xs
    by (induction xs) simp_all
  then show ?thesis by (simp add: parse_detector_line_def detector_tokens_def)
qed

lemma py_index_nat: "n < length xs \<Longrightarrow> py_index xs (int n) = Inr (xs ! n)"
  by (simp add: py_index_def)

lemma convert_detector_to_template_unfold:
  "convert_detector_to_template env det_type slit time gain det_idx wavelength_range =
     (let path = detector_path det_idx;
          template = [path @ ''/type'' \<mapsto> PyStr det_type, path @ ''/response_time'' \<mapsto> PyFloat time];
          template =
            (case gain of
               Some g \<Rightarrow> template(path @ ''/gain'' \<mapsto> PyFloat g)
             | None \<Rightarrow> template)
      in (if slit = ''servo''
          then Inr (template(path @ ''/slit/type'' \<mapsto> PyStr ''servo'',
                             path @ ''/wavelength_range'' \<mapsto> PyList (map PyFloat wavelength_range)))
          else (case float_of_string env slit of
                  None \<Rightarrow> Inl ValueError
                | Some gap \<Rightarrow>
                    Inr (template(path @ ''/slit/type'' \<mapsto> PyStr ''fixed'',
                                  path @ ''/slit/x_gap'' \<mapsto> PyFloat gap,
                                  path @ ''/slit/x_gap/@units'' \<mapsto> PyStr ''nm'',
                                  path @ ''/wavelength_range''
                                    \<mapsto> PyList (map PyFloat wavelength_range))))))"
  by (simp add: convert_detector_to_template_def detector_path_def py_float_def Let_def
      split: option.splits)

lemma convert_detector_to_template_keys:
  assumes "convert_detector_to_template env det_type slit time gain det_idx [lo, hi] = Inr d"
  shows "has_entries d (detector_entries (detector_path det_idx) det_type slit time lo hi)
         \<and> set (detector_keys (detector_path det_idx)) \<subseteq> dom d
         \<and> dom d \<subseteq> set (detector_all_keys (detector_path det_idx))"
  using assms unfolding convert_detector_to_template_unfold
  by (auto simp: Let_def detector_keys_def detector_all_keys_def has_entries_def
      detector_entries_def split: if_splits option.splits)

lemma convert_detector_to_template_returns:
  assumes "slit = ''servo'' \<or> float_of_string env slit \<noteq> None"
  shows "\<exists>d. convert_detector_to_template env det_type slit time gain det_idx wavelength_range = Inr d"
  using assms unfolding convert_detector_to_template_unfold
  by (auto simp: Let_def)

lemma read_detectors_result:
  assumes wf: "well_formed_preamble env metadata"
  shows "\<exists>times changes d2 d1 d0.
           traverse (py_float env) (detector_tokens (metadata ! 32)) = Inr times
           \<and> traverse (py_float env) (py_split (metadata ! 43)) = Inr changes
           \<and> read_detectors env metadata = Inr (((Map.empty ++ d2) ++ d1) ++ d0)
           \<and> has_entries d2
               (detector_entries (detector_path 2) ''PMT'' (detector_tokens (metadata ! 31) ! 2)
                  (times ! 2) (wavelength_bounds env changes ! 0)
                  (wavelength_bounds env changes ! 1))
           \<and> set (detector_keys (detector_path 2)) \<subseteq> dom d2
           \<and> dom d2 \<subseteq> set (detector_all_keys (detector_path 2))
           \<and> has_entries d1
               (detector_entries (detector_path 1) ''PbS'' (detector_tokens (metadata ! 31) ! 1)
                  (times ! 1) (wavelength_bounds env changes ! 1)
                  (wavelength_bounds env changes ! 2))
           \<and> set (detector_keys (detector_path 1)) \<subseteq> dom d1
           \<and> dom d1 \<subseteq> set (detector_all_keys (detector_path 1))
           \<and> has_entries d0
               (detector_entries (detector_path 0) ''InGaAs'' (detector_tokens (metadata ! 31) ! 0)
                  (times ! 0) (wavelength_bounds env changes ! 2)
                  (wavelength_bounds env changes ! 3))
           \<and> set (detector_keys (detector_path 0)) \<subseteq> dom d0
           \<and> dom d0 \<subseteq> set (detector_all_keys (detector_path 0))"
proof -
  let ?slits = "detector_tokens (metadata ! 31)"
  have len: "44 \<le> length metadata"
    and slen: "3 \<le> length ?slits"
    and sok: "list_all (\<lambda>s. s = ''servo'' \<or> float_of_string env s \<noteq> None) (take 3 ?slits)"
    and n32: "numbers env 3 (detector_tokens (metadata ! 32))"
    and n35: "numbers env 2 (detector_tokens (metadata ! 35))"
    and n43: "numbers env 2 (py_split (metadata ! 43))"
    using wf by (simp_all add: well_formed_preamble_def)
  have i31: "py_index metadata 31 = Inr (metadata ! 31)"
    and i32: "py_index metadata 32 = Inr (metadata ! 32)"
    and i35: "py_index metadata 35 = Inr (metadata ! 35)"
    and i43: "py_index metadata 43 = Inr (metadata ! 43)"
    using len by (simp_all add: py_index_def)
  obtain times where t32: "traverse (py_float env) (detector_tokens (metadata ! 32)) = Inr times"
    and tlen: "3 \<le> length times"
    using numbers_parse[OF n32] by blast
  obtain gains where t35: "traverse (py_float env) (detector_tokens (metadata ! 35)) = Inr gains"
    and glen: "2 \<le> length gains"
    using numbers_parse[OF n35] by blast
  obtain changes where t43: "traverse (py_float env) (py_split (metadata ! 43)) = Inr changes"
    and clen: "2 \<le> length changes"
    using numbers_parse[OF n43] by blast
  let ?wr = "wavelength_bounds env changes"
  have wlen: "4 \<le> length ?wr"
    using clen by (simp add: wavelength_bounds_def)
  have s2: "py_index ?slits 2 = Inr (?slits ! 2)"
    and s1: "py_index ?slits 1 = Inr (?slits ! 1)"
    and s0: "py_index ?slits 0 = Inr (?slits ! 0)"
    using slen by (auto simp: py_index_def)
  have tm2: "py_index times 2 = Inr (times ! 2)"
    and tm1: "py_index times 1 = Inr (times ! 1)"
    and tm0: "py_index times 0 = Inr (times ! 0)"
    using tlen by (auto simp: py_index_def)
  have g1: "py_index gains 1 = Inr (gains ! 1)"
    and g0: "py_index gains 0 = Inr (gains ! 0)"
    using glen by (auto simp: py_index_def)
  have w0: "py_index ?wr 0 = Inr (?wr ! 0)"
    and w1: "py_index ?wr 1 = Inr (?wr ! 1)"
    and w21: "py_index ?wr (2 - 1) = Inr (?wr ! 1)"
    and w31: "py_index ?wr (3 - 1) = Inr (?wr ! 2)"
    and w20: "py_index ?wr (2 - 0) = Inr (?wr ! 2)"
    and w30: "py_index ?wr (3 - 0) = Inr (?wr ! 3)"
    using wlen by (auto simp: py_index_def)
  have ok: "?slits ! i = ''servo'' \<or> float_of_string env (?slits ! i) \<noteq> None" if "i < 3" for i
  proof -
    have "take 3 ?slits ! i \<in> set (take 3 ?slits)"
      using that slen by (intro nth_mem) simp
    then show ?thesis
      using sok that by (auto simp: list_all_iff)
  qed
  obtain d2 where c2: "convert_detector_to_template env ''PMT'' (?slits ! 2) (times ! 2) None 2
      [?wr ! 0, ?wr ! 1] = Inr d2"
    using convert_detector_to_template_returns[of "?slits ! 2" env] ok[of 2] by fastforce
  obtain d1 where c1: "convert_detector_to_template env ''PbS'' (?slits ! 1) (times ! 1)
      (Some (gains ! 1)) 1 [?wr ! 1, ?wr ! 2] = Inr d1"
    using convert_detector_to_template_returns[of "?slits ! 1" env] ok[of 1] by fastforce
  obtain d0 where c0: "convert_detector_to_template env ''InGaAs'' (?slits ! 0) (times ! 0)
      (Some (gains ! 0)) 0 [?wr ! 2, ?wr ! 3] = Inr d0"
    using convert_detector_to_template_returns[of "?slits ! 0" env] ok[of 0] by fastforce
  have loop: "detector_loop env ?slits times gains ?wr [(''PbS'', 1), (''InGaAs'', 0)] t
      = Inr ((t ++ d1) ++ d0)" for t
    by (simp only: detector_loop.simps s1 s0 tm1 tm0 g1 g0 w21 w31 w20 w30 c1 c0 and_then_Inr)
  have run: "read_detectors env metadata = Inr (((Map.empty ++ d2) ++ d1) ++ d0)"
    unfolding read_detectors_def
    by (simp only: i31 i32 i35 i43 parse_detector_line_identity parse_detector_line_float
        t32 t35 t43 and_then_Inr Let_def wavelength_bounds_def[symmetric] s2 tm2 w0 w1 c2 loop)
  show ?thesis
    using t32 t43 run convert_detector_to_template_keys[OF c2]
      convert_detector_to_template_keys[OF c1] convert_detector_to_template_keys[OF c0]
    by (intro exI[of _ times] exI[of _ changes] exI[of _ d2] exI[of _ d1] exI[of _ d0])
       (simp only: simp_thms)
qed

lemma data_to_template_result:
  assumes "first_column env (df_values data) = Inr column"
  shows "\<exists>dat. data_to_template env data = Inr dat
           \<and> dat ''/ENTRY[entry]/data/wavelength'' = Some (PyArray (index_values data))
           \<and> dat ''/ENTRY[entry]/data/transmission'' = Some (PyArray column)
           \<and> dom dat \<subseteq> {''/ENTRY[entry]/data/@signal'', ''/ENTRY[entry]/data/@axes'',
                 ''/ENTRY[entry]/data/type'', ''/ENTRY[entry]/data/wavelength'',
                 ''/ENTRY[entry]/instrument/spectrometer/wavelength'',
                 ''/ENTRY[entry]/data/wavelength/@units'', ''/ENTRY[entry]/data/transmission'',
                 ''/ENTRY[entry]/instrument/measured_data''}"
  using assms by (simp add: data_to_template_def)

lemma METADATA_MAP_distinct: "distinct (map fst (METADATA_MAP mp))"
  by (simp add: METADATA_MAP_def)

lemma METADATA_MAP_no_definition: "map_of (METADATA_MAP mp) ''/ENTRY[entry]/definition'' = None"
  by (simp add: METADATA_MAP_def)

lemma METADATA_MAP_no_warning: "concat (map rule_warning (METADATA_MAP mp)) = []"
  by (simp add: METADATA_MAP_def)

lemma detector_paths:
  "detector_path 2 = ''/ENTRY[entry]/instrument/DETECTOR[detector2]''"
  "detector_path 1 = ''/ENTRY[entry]/instrument/DETECTOR[detector1]''"
  "detector_path 0 = ''/ENTRY[entry]/instrument/DETECTOR[detector]''"
  by (simp_all add: detector_path_def str_of_int_def str_of_nat.simps)

lemma map_add_present: "b k = Some v \<Longrightarrow> (a ++ b) k = Some v"
  by (simp add: map_add_def)

lemma notin_dom: "dom d \<subseteq> A \<Longrightarrow> k \<notin> A \<Longrightarrow> k \<notin> dom d"
  by blast

lemma entry_key: "(k, v) \<in> set entries \<Longrightarrow> set (map fst entries) \<inter> A = {} \<Longrightarrow> k \<notin> A"
  by force

lemma has_entries_iff: "has_entries t entries \<longleftrightarrow> (\<forall>(k, v) \<in> set entries. t k = Some v)"
  by (simp add: has_entries_def list_all_iff)

lemma has_entries_keys: "has_entries t entries \<Longrightarrow> set (map fst entries) \<subseteq> dom t"
  by (auto simp: has_entries_iff)

lemma has_entries_map_add: "has_entries b entries \<Longrightarrow> has_entries (a ++ b) entries"
  by (auto simp: has_entries_iff map_add_present)

text \<open>
  The dictionary of \<open>parse_asc\<close> is built from four layers, each on top of the ones
  before: the metadata, then the three detectors, then the data. A value shows through
  when no later layer holds its key.
\<close>

lemma stacked_none:
  "m k = None \<Longrightarrow> e k = None \<Longrightarrow> k \<notin> dom da \<Longrightarrow> k \<notin> dom db \<Longrightarrow> k \<notin> dom dc
   \<Longrightarrow> k \<notin> dom dd \<Longrightarrow> ((m ++ (((e ++ da) ++ db) ++ dc)) ++ dd) k = None"
  by (simp add: map_add_def domIff)

lemma stacked_entries2:
  assumes "has_entries da entries"
    and "set (map fst entries) \<inter> B = {}" "dom db \<subseteq> B"
    and "set (map fst entries) \<inter> C = {}" "dom dc \<subseteq> C"
    and "set (map fst entries) \<inter> D = {}" "dom dd \<subseteq> D"
  shows "has_entries ((m ++ (((e ++ da) ++ db) ++ dc)) ++ dd) entries"
  unfolding has_entries_iff
proof (intro ballI, clarify)
  fix k v
  assume kv: "(k, v) \<in> set entries"
  have "da k = Some v"
    using assms(1) kv by (auto simp: has_entries_iff)
  moreover have "k \<notin> dom db" "k \<notin> dom dc" "k \<notin> dom dd"
    using entry_key[OF kv assms(2)] entry_key[OF kv assms(4)] entry_key[OF kv assms(6)]
      assms(3,5,7) by (blast intro: notin_dom)+
  ultimately show "((m ++ (((e ++ da) ++ db) ++ dc)) ++ dd) k = Some v"
    by (simp add: map_add_def domIff)
qed

lemma stacked_entries1:
  assumes "has_entries db entries"
    and "set (map fst entries) \<inter> C = {}" "dom dc \<subseteq> C"
    and "set (map fst entries) \<inter> D = {}" "dom dd \<subseteq> D"
  shows "has_entries ((m ++ (((e ++ da) ++ db) ++ dc)) ++ dd) entries"
  unfolding has_entries_iff
proof (intro ballI, clarify)
  fix k v
  assume kv: "(k, v) \<in> set entries"
  have "db k = Some v"
    using assms(1) kv by (auto simp: has_entries_iff)
  moreover have "k \<notin> dom dc" "k \<notin> dom dd"
    using entry_key[OF kv assms(2)] entry_key[OF kv assms(4)] assms(3,5)
    by (blast intro: notin_dom)+
  ultimately show "((m ++ (((e ++ da) ++ db) ++ dc)) ++ dd) k = Some v"
    by (simp add: map_add_def domIff)
qed

lemma stacked_entries0:
  assumes "has_entries dc entries"
    and "set (map fst entries) \<inter> D = {}" "dom dd \<subseteq> D"
  shows "has_entries ((m ++ (((e ++ da) ++ db) ++ dc)) ++ dd) entries"
  unfolding has_entries_iff
proof (intro ballI, clarify)
  fix k v
  assume kv: "(k, v) \<in> set entries"
  have "dc k = Some v"
    using assms(1) kv by (auto simp: has_entries_iff)
  moreover have "k \<notin> dom dd"
    using entry_key[OF kv assms(2)] assms(3) by (blast intro: notin_dom)
  ultimately show "((m ++ (((e ++ da) ++ db) ++ dc)) ++ dd) k = Some v"
    by (simp add: map_add_def domIff)
qed

lemma detector_entries_keys:
  "map fst (detector_entries path det_type slit time lo hi) = detector_keys path"
  by (simp add: detector_entries_def detector_keys_def)

lemma parse_asc_result:
  assumes op: "open_text env file_path (Some ''utf-8'') = Inr lines"
    and pre: "read_preamble lines [] = (metadata, rest)"
    and wf: "well_formed_preamble env metadata"
    and csv: "read_csv env rest = Inr data"
    and col: "first_column env (df_values data) = Inr column"
  shows "\<exists>times changes d.
           traverse (py_float env) (detector_tokens (metadata ! 32)) = Inr times
           \<and> traverse (py_float env) (py_split (metadata ! 43)) = Inr changes
           \<and> parse_asc env file_path = Inr (d, [])
           \<and> d ''/ENTRY[entry]/data/wavelength'' = Some (PyArray (index_values data))
           \<and> d ''/ENTRY[entry]/data/transmission'' = Some (PyArray column)
           \<and> has_entries d
               (detector_entries ''/ENTRY[entry]/instrument/DETECTOR[detector2]'' ''PMT''
                  (detector_tokens (metadata ! 31) ! 2) (times ! 2)
                  (wavelength_bounds env changes ! 0) (wavelength_bounds env changes ! 1))
           \<and> has_entries d
               (detector_entries ''/ENTRY[entry]/instrument/DETECTOR[detector1]'' ''PbS''
                  (detector_tokens (metadata ! 31) ! 1) (times ! 1)
                  (wavelength_bounds env changes ! 1) (wavelength_bounds env changes ! 2))
           \<and> has_entries d
               (detector_entries ''/ENTRY[entry]/instrument/DETECTOR[detector]'' ''InGaAs''
                  (detector_tokens (metadata ! 31) ! 0) (times ! 0)
                  (wavelength_bounds env changes ! 2) (wavelength_bounds env changes ! 3))
           \<and> d ''/ENTRY[entry]/definition'' = None"
proof -
  let ?P2 = "''/ENTRY[entry]/instrument/DETECTOR[detector2]''"
  let ?P1 = "''/ENTRY[entry]/instrument/DETECTOR[detector1]''"
  let ?P0 = "''/ENTRY[entry]/instrument/DETECTOR[detector]''"
  let ?DK = "{''/ENTRY[entry]/data/@signal'', ''/ENTRY[entry]/data/@axes'',
                 ''/ENTRY[entry]/data/type'', ''/ENTRY[entry]/data/wavelength'',
                 ''/ENTRY[entry]/instrument/spectrometer/wavelength'',
                 ''/ENTRY[entry]/data/wavelength/@units'', ''/ENTRY[entry]/data/transmission'',
                 ''/ENTRY[entry]/instrument/measured_data''}"
  let ?M = "Map.empty ++ (\<lambda>path. Option.bind (map_of (METADATA_MAP (mpars env)) path)
                (rule_value metadata))"
  let ?slits = "detector_tokens (metadata ! 31)"
  have rules: "list_all (\<lambda>entry. rule_applies metadata (snd entry)) (METADATA_MAP (mpars env))"
    using wf by (simp add: well_formed_preamble_def)
  have meta: "apply_rules metadata (METADATA_MAP (mpars env)) (Map.empty, []) = Inr (?M, [])"
    using apply_rules_result[OF METADATA_MAP_distinct rules, of Map.empty "[]"]
    by (simp only: METADATA_MAP_no_warning append_Nil)
  have M_def: "?M ''/ENTRY[entry]/definition'' = None"
    by (simp add: METADATA_MAP_no_definition)
  obtain times changes d2 d1 d0
    where t32: "traverse (py_float env) (detector_tokens (metadata ! 32)) = Inr times"
    and t43: "traverse (py_float env) (py_split (metadata ! 43)) = Inr changes"
    and det: "read_detectors env metadata = Inr (((Map.empty ++ d2) ++ d1) ++ d0)"
    and e2: "has_entries d2 (detector_entries ?P2 ''PMT'' (?slits ! 2) (times ! 2)
               (wavelength_bounds env changes ! 0) (wavelength_bounds env changes ! 1))"
    and k2: "set (detector_keys ?P2) \<subseteq> dom d2"
    and a2: "dom d2 \<subseteq> set (detector_all_keys ?P2)"
    and e1: "has_entries d1 (detector_entries ?P1 ''PbS'' (?slits ! 1) (times ! 1)
               (wavelength_bounds env changes ! 1) (wavelength_bounds env changes ! 2))"
    and k1: "set (detector_keys ?P1) \<subseteq> dom d1"
    and a1: "dom d1 \<subseteq> set (detector_all_keys ?P1)"
    and e0: "has_entries d0 (detector_entries ?P0 ''InGaAs'' (?slits ! 0) (times ! 0)
               (wavelength_bounds env changes ! 2) (wavelength_bounds env changes ! 3))"
    and k0: "set (detector_keys ?P0) \<subseteq> dom d0"
    and a0: "dom d0 \<subseteq> set (detector_all_keys ?P0)"
    using read_detectors_result[OF wf, unfolded detector_paths]
    by (elim exE conjE) (rule that)
  obtain dat where dt: "data_to_template env data = Inr dat"
    and vw: "dat ''/ENTRY[entry]/data/wavelength'' = Some (PyArray (index_values data))"
    and vt: "dat ''/ENTRY[entry]/data/transmission'' = Some (PyArray column)"
    and ad: "dom dat \<subseteq> ?DK"
    using data_to_template_result[OF col]
    by (elim exE conjE) (rule that)
  let ?d = "(?M ++ (((Map.empty ++ d2) ++ d1) ++ d0)) ++ dat"
  have run: "parse_asc env file_path = Inr (?d, [])"
    unfolding parse_asc_def parse_asc_with_def
    by (simp only: op pre csv meta det dt and_then_Inr prod.case)
  have n2_1: "set (detector_keys ?P2) \<inter> set (detector_all_keys ?P1) = {}"
    and n2_0: "set (detector_keys ?P2) \<inter> set (detector_all_keys ?P0) = {}"
    and n1_0: "set (detector_keys ?P1) \<inter> set (detector_all_keys ?P0) = {}"
    and n2_d: "set (detector_keys ?P2) \<inter> ?DK = {}"
    and n1_d: "set (detector_keys ?P1) \<inter> ?DK = {}"
    and n0_d: "set (detector_keys ?P0) \<inter> ?DK = {}"
    by (simp_all add: detector_all_keys_def detector_keys_def)
  have nd: "''/ENTRY[entry]/definition'' \<notin> set (detector_all_keys ?P2)"
    "''/ENTRY[entry]/definition'' \<notin> set (detector_all_keys ?P1)"
    "''/ENTRY[entry]/definition'' \<notin> set (detector_all_keys ?P0)"
    "''/ENTRY[entry]/definition'' \<notin> ?DK"
    by (simp_all add: detector_all_keys_def detector_keys_def)
  have h2: "has_entries ?d (detector_entries ?P2 ''PMT'' (?slits ! 2) (times ! 2)
               (wavelength_bounds env changes ! 0) (wavelength_bounds env changes ! 1))"
    by (rule stacked_entries2[OF e2 _ a1 _ a0 _ ad])
       (simp_all only: detector_entries_keys n2_1 n2_0 n2_d)
  have h1: "has_entries ?d (detector_entries ?P1 ''PbS'' (?slits ! 1) (times ! 1)
               (wavelength_bounds env changes ! 1) (wavelength_bounds env changes ! 2))"
    by (rule stacked_entries1[OF e1 _ a0 _ ad])
       (simp_all only: detector_entries_keys n1_0 n1_d)
  have h0: "has_entries ?d (detector_entries ?P0 ''InGaAs'' (?slits ! 0) (times ! 0)
               (wavelength_bounds env changes ! 2) (wavelength_bounds env changes ! 3))"
    by (rule stacked_entries0[OF e0 _ ad])
       (simp_all only: detector_entries_keys n0_d)
  have vd: "?d ''/ENTRY[entry]/definition'' = None"
    by (rule stacked_none[where m="?M" and e=Map.empty and k="''/ENTRY[entry]/definition''",
          OF M_def refl notin_dom[OF a2 nd(1)] notin_dom[OF a1 nd(2)]
          notin_dom[OF a0 nd(3)] notin_dom[OF ad nd(4)]])
  have dw: "?d ''/ENTRY[entry]/data/wavelength'' = Some (PyArray (index_values data))"
    using vw by (rule map_add_present)
  have dtr: "?d ''/ENTRY[entry]/data/transmission'' = Some (PyArray column)"
    using vt by (rule map_add_present)
  show ?thesis
    by (rule exI[of _ times], rule exI[of _ changes], rule exI[of _ ?d])
       (intro conjI t32 t43 run dw dtr h2 h1 h0 vd)
qed

lemma read_single_file:
  assumes "usable env file_path"
    and "(case map_of (extensions env) (splitext_ext file_path) of
            Some parse \<Rightarrow> parse
          | None \<Rightarrow> (\<lambda>_. Inr (Map.empty, []))) file_path = Inr (d, printed)"
  shows "TransmissionReader_read env (Some template) (Some [file_path])
         = Inr ((template ++ fixed_entries) ++ d, printed)"
  unfolding read_unfold using assms(2)
  by (simp add: read_files_parse[OF assms(1)] del: read_files.simps(2))

lemma has_entries_type:
  "has_entries t (detector_entries path det_type slit time lo hi) \<Longrightarrow>
   t (path @ ''/type'') = Some (PyStr det_type)"
  by (simp add: has_entries_def detector_entries_def)

lemma has_entries_detector_keys:
  "has_entries t (detector_entries path det_type slit time lo hi) \<Longrightarrow>
   set (detector_keys path) \<subseteq> dom t"
  using has_entries_keys[of t "detector_entries path det_type slit time lo hi"]
  by (simp only: detector_entries_keys)

lemma two_keys_present: "t a = Some v \<Longrightarrow> t b = Some w \<Longrightarrow> {a, b} \<subseteq> dom t"
  by auto

section \<open>Proofs: the claim about a measurement file\<close>



end
